theory Spec2Isabelle
  imports Complex_Main
begin

text \<open>
  A model of the transaction execution pipeline of the solana-common library: the
  priority fee estimator, the injection of compute budget instructions, the sending
  loop, and the batch payload with its construction, simulation and execution. The
  definitions follow the TypeScript sources function by function; the properties proved
  about them are collected after the definitions.
\<close>

section \<open>Numbers\<close>

text \<open>
  The TypeScript sources compute with two kinds of numbers: JavaScript \<^verbatim>\<open>number\<close>
  (fee samples, options) and \<^verbatim>\<open>BigNumber\<close> of bignumber.js (fees and caps). Both
  have the same shape of values: not-a-number, the two infinities and the finite values.
  A finite value is modelled as an exact rational, the decimal value that \<^verbatim>\<open>BigNumber\<close>
  reads from a number. Sums, differences and products of \<^verbatim>\<open>BigNumber\<close> are exact;
  a quotient is rounded to twenty decimal places, half up, as the library does with the
  configuration that the repository leaves at its default. The signed zero is a single
  zero.
\<close>

datatype numeric = NaN | NegInf | Fin rat | PosInf

type_synonym js_number = numeric
type_synonym BigNumber = numeric

text \<open>JavaScript's \<^verbatim>\<open>a < b\<close> and BigNumber's \<^verbatim>\<open>isLessThan\<close>: false as soon as one side is NaN.\<close>

fun num_lt :: "numeric \<Rightarrow> numeric \<Rightarrow> bool" where
  "num_lt NaN b = False"
| "num_lt a NaN = False"
| "num_lt NegInf NegInf = False"
| "num_lt NegInf b = True"
| "num_lt a NegInf = False"
| "num_lt (Fin a) (Fin b) = (a < b)"
| "num_lt (Fin a) PosInf = True"
| "num_lt PosInf b = False"

text \<open>\<^verbatim>\<open>a <= b\<close> and \<^verbatim>\<open>isLessThanOrEqualTo\<close>: again false when a side is NaN.\<close>

definition num_le :: "numeric \<Rightarrow> numeric \<Rightarrow> bool" where
  "num_le a b = (a \<noteq> NaN \<and> b \<noteq> NaN \<and> (num_lt a b \<or> a = b))"

text \<open>\<^verbatim>\<open>Number.isNaN\<close>.\<close>

definition Number_isNaN :: "js_number \<Rightarrow> bool" where
  "Number_isNaN x = (x = NaN)"

text \<open>
  \<^verbatim>\<open>BigNumber(a).comparedTo(b)\<close>: \<^verbatim>\<open>null\<close> (here \<open>None\<close>) when a side is NaN, otherwise
  \<open>-1\<close>, \<open>0\<close> or \<open>1\<close>.
\<close>

definition comparedTo :: "BigNumber \<Rightarrow> BigNumber \<Rightarrow> int option" where
  "comparedTo a b =
     (if a = NaN \<or> b = NaN then None
      else if num_lt a b then Some (- 1)
      else if num_lt b a then Some 1
      else Some 0)"

text \<open>The rounding modes of bignumber.js that the sources use.\<close>

datatype RoundingMode = ROUND_DOWN | ROUND_CEIL | ROUND_FLOOR

text \<open>
  Rounding a rational to an integer: \<^verbatim>\<open>ROUND_DOWN\<close> rounds towards zero,
  \<^verbatim>\<open>ROUND_CEIL\<close> towards plus infinity, \<^verbatim>\<open>ROUND_FLOOR\<close> towards minus infinity.
\<close>

fun round_rat :: "RoundingMode \<Rightarrow> rat \<Rightarrow> int" where
  "round_rat ROUND_DOWN q = (if q < 0 then \<lceil>q\<rceil> else \<lfloor>q\<rfloor>)"
| "round_rat ROUND_CEIL q = \<lceil>q\<rceil>"
| "round_rat ROUND_FLOOR q = \<lfloor>q\<rfloor>"

text \<open>\<^verbatim>\<open>x.decimalPlaces(0, mode)\<close>: NaN and the infinities are returned as they are.\<close>

fun decimalPlaces0 :: "RoundingMode \<Rightarrow> BigNumber \<Rightarrow> BigNumber" where
  "decimalPlaces0 m (Fin q) = Fin (of_int (round_rat m q))"
| "decimalPlaces0 m x = x"

text \<open>\<^verbatim>\<open>a.plus(b)\<close>.\<close>

fun bn_plus :: "BigNumber \<Rightarrow> BigNumber \<Rightarrow> BigNumber" where
  "bn_plus NaN b = NaN"
| "bn_plus a NaN = NaN"
| "bn_plus (Fin a) (Fin b) = Fin (a + b)"
| "bn_plus PosInf NegInf = NaN"
| "bn_plus NegInf PosInf = NaN"
| "bn_plus PosInf b = PosInf"
| "bn_plus NegInf b = NegInf"
| "bn_plus (Fin a) b = b"

text \<open>The sign of a value that is not NaN, and the infinity of a given sign.\<close>

fun num_sign :: "numeric \<Rightarrow> int" where
  "num_sign NaN = 0"
| "num_sign NegInf = - 1"
| "num_sign PosInf = 1"
| "num_sign (Fin q) = (if q < 0 then - 1 else if q = 0 then 0 else 1)"

definition signed_inf :: "int \<Rightarrow> numeric" where
  "signed_inf s = (if s < 0 then NegInf else PosInf)"

definition is_inf :: "numeric \<Rightarrow> bool" where
  "is_inf x = (x = NegInf \<or> x = PosInf)"

text \<open>\<^verbatim>\<open>a.negated()\<close> and \<^verbatim>\<open>a.minus(b)\<close>.\<close>

fun bn_negated :: "BigNumber \<Rightarrow> BigNumber" where
  "bn_negated NaN = NaN"
| "bn_negated NegInf = PosInf"
| "bn_negated PosInf = NegInf"
| "bn_negated (Fin q) = Fin (- q)"

definition bn_minus :: "BigNumber \<Rightarrow> BigNumber \<Rightarrow> BigNumber" where
  "bn_minus a b = bn_plus a (bn_negated b)"

text \<open>\<^verbatim>\<open>a.times(b)\<close>: zero times an infinity is NaN.\<close>

definition bn_times :: "BigNumber \<Rightarrow> BigNumber \<Rightarrow> BigNumber" where
  "bn_times a b =
     (case (a, b) of
        (Fin x, Fin y) \<Rightarrow> Fin (x * y)
      | _ \<Rightarrow>
        if a = NaN \<or> b = NaN \<or> num_sign a = 0 \<or> num_sign b = 0 then NaN
        else signed_inf (num_sign a * num_sign b))"

text \<open>
  Rounding to twenty decimal places, the nearest neighbour, and away from zero when both
  neighbours are equally near (\<^verbatim>\<open>DECIMAL_PLACES = 20\<close>, \<^verbatim>\<open>ROUND_HALF_UP\<close>).
\<close>

definition round_half_up_20 :: "rat \<Rightarrow> rat" where
  "round_half_up_20 q =
     (if q < 0 then - of_int \<lfloor>- q * 10 ^ 20 + 1 / 2\<rfloor> / 10 ^ 20
      else of_int \<lfloor>q * 10 ^ 20 + 1 / 2\<rfloor> / 10 ^ 20)"

text \<open>
  \<^verbatim>\<open>a.div(b)\<close>: NaN for a NaN operand, zero by zero and infinity by infinity; an infinity
  for an infinite dividend or a zero divisor; zero for an infinite divisor; the rounded
  quotient otherwise.
\<close>

definition bn_div :: "BigNumber \<Rightarrow> BigNumber \<Rightarrow> BigNumber" where
  "bn_div a b =
     (if a = NaN \<or> b = NaN then NaN
      else if is_inf a then (if is_inf b then NaN
                             else signed_inf (num_sign a * (if num_sign b < 0 then - 1 else 1)))
      else if is_inf b then Fin 0
      else case (a, b) of
        (Fin x, Fin y) \<Rightarrow>
          (if y = 0 then (if x = 0 then NaN else signed_inf (num_sign a))
           else Fin (round_half_up_20 (x / y)))
      | _ \<Rightarrow> NaN)"

text \<open>\<^verbatim>\<open>BigNumber.min(a, b)\<close>: NaN when an argument is NaN.\<close>

definition bn_min :: "BigNumber \<Rightarrow> BigNumber \<Rightarrow> BigNumber" where
  "bn_min a b = (if a = NaN \<or> b = NaN then NaN else if num_lt b a then b else a)"

section \<open>Errors\<close>

text \<open>
  A thrown JavaScript value. \<open>Error m\<close> is an error object with an optional message
  (\<^verbatim>\<open>new Error(m)\<close>, or whatever a collaborator throws); the aggregate error of
  \<^verbatim>\<open>src/error.ts\<close> carries its list of index and error pairs.
\<close>

datatype js_error =
    Error "string option"
  | MultiTransactionSimulationError string "(nat \<times> js_error) list"
  | AssertionError string
  | SyntaxError

section \<open>Fee samples: filter and sort\<close>

record RecentPrioritizationFees =
  slot :: nat
  prioritizationFee :: js_number

text \<open>
  \<^verbatim>\<open>Array.prototype.sort\<close> with a comparator is a stable sort. It is modelled as the
  stable insertion sort: an element goes before the first element it does not compare
  greater than.
\<close>

fun insort_cmp :: "('a \<Rightarrow> 'a \<Rightarrow> int) \<Rightarrow> 'a \<Rightarrow> 'a list \<Rightarrow> 'a list" where
  "insort_cmp c x [] = [x]"
| "insort_cmp c x (y # ys) = (if c x y \<le> 0 then x # y # ys else y # insort_cmp c x ys)"

definition array_sort :: "('a \<Rightarrow> 'a \<Rightarrow> int) \<Rightarrow> 'a list \<Rightarrow> 'a list" where
  "array_sort c xs = foldr (insort_cmp c) xs []"

text \<open>The comparator of the source: \<^verbatim>\<open>BigNumber(a.fee).comparedTo(b.fee) ?? 0\<close>.\<close>

definition fee_comparator :: "RecentPrioritizationFees \<Rightarrow> RecentPrioritizationFees \<Rightarrow> int" where
  "fee_comparator a b =
     (case comparedTo (prioritizationFee a) (prioritizationFee b) of
        None \<Rightarrow> 0
      | Some r \<Rightarrow> r)"

definition replaceNonZeroAndSortPrioritizationFeesAsc ::
  "RecentPrioritizationFees list \<Rightarrow> RecentPrioritizationFees list" where
  "replaceNonZeroAndSortPrioritizationFeesAsc recentPrioritizationFees =
     array_sort fee_comparator
       (filter (\<lambda>fee. \<not> Number_isNaN (prioritizationFee fee) \<and> num_lt (Fin 0) (prioritizationFee fee))
          recentPrioritizationFees)"

section \<open>Instructions and the ledger client\<close>

type_synonym PublicKey = string

record AccountMeta =
  pubkey :: PublicKey
  isSigner :: bool
  isWritable :: bool

text \<open>An instruction: its accounts, the program it calls and its data bytes.\<close>

record TransactionInstruction =
  keys :: "AccountMeta list"
  programId :: PublicKey
  data :: "nat list"

text \<open>
  The part of the RPC connection that the fee estimator calls. The call is a network
  round trip: it returns the samples or throws.
\<close>

record fee_connection =
  getRecentPrioritizationFees :: "PublicKey list \<Rightarrow> js_error + RecentPrioritizationFees list"

section \<open>Fee estimator\<close>

datatype PriorityLevel = Low | Medium | High

text \<open>
  \<^verbatim>\<open>[...new Set(xs)]\<close> keeps the first occurrence of every element, in order. (The
  source's set holds key objects; the model compares keys by value.)
\<close>

definition array_from_set :: "'a list \<Rightarrow> 'a list" where
  "array_from_set xs = rev (remdups (rev xs))"

definition lockedWritableAccounts :: "TransactionInstruction list \<Rightarrow> PublicKey list" where
  "lockedWritableAccounts instructions =
     array_from_set
       (concat (map (\<lambda>ix. map pubkey (filter (\<lambda>key. isSigner key \<or> isWritable key) (keys ix))
                             @ [programId ix])
                    instructions))"

text \<open>The median of the filtered, sorted samples, as \<^verbatim>\<open>getRecentPriorityFee\<close> computes it.\<close>

definition medianFee :: "RecentPrioritizationFees list \<Rightarrow> BigNumber" where
  "medianFee sortedNonZeroList =
     (if length sortedNonZeroList > 0 then
        (let midIndex = length sortedNonZeroList div 2 in
         if length sortedNonZeroList mod 2 \<noteq> 0
         then decimalPlaces0 ROUND_DOWN (prioritizationFee (sortedNonZeroList ! midIndex))
         else decimalPlaces0 ROUND_DOWN
                (bn_div (bn_plus (prioritizationFee (sortedNonZeroList ! (midIndex - 1)))
                                 (prioritizationFee (sortedNonZeroList ! midIndex)))
                        (Fin 2)))
      else Fin 0)"

text \<open>The multipliers \<^verbatim>\<open>{ low: 0.8, medium: 1.2, high: 2.0 }\<close>.\<close>

fun multipliers :: "PriorityLevel \<Rightarrow> rat" where
  "multipliers Low = 8 / 10"
| "multipliers Medium = 12 / 10"
| "multipliers High = 2"

text \<open>The fallback fees \<^verbatim>\<open>{ low: 1000, medium: 5000, high: 25000 }\<close>.\<close>

fun fallbackFees :: "PriorityLevel \<Rightarrow> rat" where
  "fallbackFees Low = 1000"
| "fallbackFees Medium = 5000"
| "fallbackFees High = 25000"

text \<open>\<^verbatim>\<open>medianFee.times(multipliers[priorityLevel]).decimalPlaces(0, BigNumber.ROUND_CEIL)\<close>.\<close>

definition calculatedFee :: "BigNumber \<Rightarrow> PriorityLevel \<Rightarrow> BigNumber" where
  "calculatedFee median priorityLevel =
     decimalPlaces0 ROUND_CEIL (bn_times median (Fin (multipliers priorityLevel)))"

text \<open>
  \<^verbatim>\<open>getRecentPriorityFee\<close>: everything is inside one \<^verbatim>\<open>try\<close>; a throwing fetch ends in the
  \<^verbatim>\<open>catch\<close>, which returns the capped fallback. The function never throws itself.
\<close>

definition getRecentPriorityFee ::
  "'c fee_connection_scheme \<Rightarrow> TransactionInstruction list \<Rightarrow> PriorityLevel \<Rightarrow> BigNumber \<Rightarrow> BigNumber" where
  "getRecentPriorityFee connection instructions priorityLevel maxFeeCap =
     (case getRecentPrioritizationFees connection (lockedWritableAccounts instructions) of
        Inl error \<Rightarrow> bn_min (Fin (fallbackFees priorityLevel)) maxFeeCap
      | Inr recentPrioritizationFees \<Rightarrow>
          (let sortedNonZeroList = replaceNonZeroAndSortPrioritizationFeesAsc recentPrioritizationFees
           in bn_min (calculatedFee (medianFee sortedNonZeroList) priorityLevel) maxFeeCap))"

text \<open>
  The words of the specification, for comparison with the code: a value rounded down
  (to the next whole number below it) or up, the average of two values (half their sum,
  exactly), and a value that is a whole number.
\<close>

fun rounded_down :: "numeric \<Rightarrow> numeric" where
  "rounded_down (Fin q) = Fin (of_int \<lfloor>q\<rfloor>)"
| "rounded_down x = x"

fun rounded_up :: "numeric \<Rightarrow> numeric" where
  "rounded_up (Fin q) = Fin (of_int \<lceil>q\<rceil>)"
| "rounded_up x = x"

definition average :: "numeric \<Rightarrow> numeric \<Rightarrow> numeric" where
  "average a b = (case bn_plus a b of Fin q \<Rightarrow> Fin (q / 2) | x \<Rightarrow> x)"

fun is_whole :: "numeric \<Rightarrow> bool" where
  "is_whole (Fin q) = (of_int \<lfloor>q\<rfloor> = q)"
| "is_whole x = False"

text \<open>A sample is kept by the filter when its fee is a number and positive.\<close>

definition kept :: "RecentPrioritizationFees \<Rightarrow> bool" where
  "kept s = (prioritizationFee s \<noteq> NaN \<and> num_lt (Fin 0) (prioritizationFee s))"

definition fee_le :: "RecentPrioritizationFees \<Rightarrow> RecentPrioritizationFees \<Rightarrow> bool" where
  "fee_le a b = num_le (prioritizationFee a) (prioritizationFee b)"


section \<open>Strings\<close>

text \<open>\<^verbatim>\<open>s.includes(sub)\<close>: \<open>sub\<close> occurs in \<open>s\<close> as a contiguous part.\<close>

fun starts_with :: "string \<Rightarrow> string \<Rightarrow> bool" where
  "starts_with s [] = True"
| "starts_with [] (c # cs) = False"
| "starts_with (d # ds) (c # cs) = (d = c \<and> starts_with ds cs)"

fun includes_str :: "string \<Rightarrow> string \<Rightarrow> bool" where
  "includes_str [] sub = (sub = [])"
| "includes_str (d # ds) sub = (starts_with (d # ds) sub \<or> includes_str ds sub)"

text \<open>The decimal digits of a number, as a template literal prints an index.\<close>

definition digit :: "nat \<Rightarrow> char" where
  "digit k = char_of (k + 48)"

fun string_of_nat :: "nat \<Rightarrow> string" where
  "string_of_nat n = (if 9 < n then string_of_nat (n div 10) else []) @ [digit (n mod 10)]"

text \<open>\<^verbatim>\<open>err.message\<close> of a thrown value.\<close>

fun error_message :: "js_error \<Rightarrow> string option" where
  "error_message (Error m) = m"
| "error_message (MultiTransactionSimulationError m es) = Some m"
| "error_message (AssertionError m) = Some m"
| "error_message SyntaxError = Some ''Cannot convert to a BigInt''"

section \<open>Constants\<close>

definition MAX_COMPUTE_UNIT :: nat where
  "MAX_COMPUTE_UNIT = 1400000"

definition BASE_FEE_LAMPORTS :: rat where
  "BASE_FEE_LAMPORTS = 5000"

definition LAMPORTS_PER_MICRO_LAMPORT :: rat where
  "LAMPORTS_PER_MICRO_LAMPORT = 1 / 1000000"

definition DEFAULT_MAX_PRIORITY_FEE :: rat where
  "DEFAULT_MAX_PRIORITY_FEE = 1 / 1000"

definition COMPUTE_BUDGET_PROGRAM_COMPUTE_UNIT :: nat where
  "COMPUTE_BUDGET_PROGRAM_COMPUTE_UNIT = 400"

text \<open>\<^verbatim>\<open>web3.LAMPORTS_PER_SOL\<close>.\<close>

definition LAMPORTS_PER_SOL :: rat where
  "LAMPORTS_PER_SOL = 1000000000"

section \<open>The compute budget program of web3.js\<close>

text \<open>
  The library functions that the payload classes call. An instruction of the compute
  budget program starts with one byte that tells its type; the decoder throws when the
  program is another one, when there is no first byte and when the byte is none of the
  four types.
\<close>

definition ComputeBudgetProgram_programId :: PublicKey where
  "ComputeBudgetProgram_programId = ''ComputeBudget111111111111111111111111111111''"

datatype ComputeBudgetInstructionType =
  RequestUnits | RequestHeapFrame | SetComputeUnitLimit | SetComputeUnitPrice

definition decodeInstructionType ::
  "TransactionInstruction \<Rightarrow> js_error + ComputeBudgetInstructionType" where
  "decodeInstructionType instruction =
     (if programId instruction \<noteq> ComputeBudgetProgram_programId
      then Inl (Error (Some ''invalid instruction; programId is not ComputeBudgetProgram''))
      else case data instruction of
        [] \<Rightarrow> Inl (Error (Some ''Trying to access beyond buffer length''))
      | typeIndex # payload \<Rightarrow>
          if typeIndex = 0 then Inr RequestUnits
          else if typeIndex = 1 then Inr RequestHeapFrame
          else if typeIndex = 2 then Inr SetComputeUnitLimit
          else if typeIndex = 3 then Inr SetComputeUnitPrice
          else Inl (Error (Some ''Instruction type incorrect; not a ComputeBudgetInstruction'')))"

text \<open>
  The bytes of a number, least significant first. (The two builders encode their argument
  in four and in eight bytes; an argument out of that range is reduced to it.)
\<close>

fun le_bytes :: "nat \<Rightarrow> nat \<Rightarrow> nat list" where
  "le_bytes 0 v = []"
| "le_bytes (Suc k) v = (v mod 256) # le_bytes k (v div 256)"

definition setComputeUnitLimit :: "nat \<Rightarrow> TransactionInstruction" where
  "setComputeUnitLimit units =
     \<lparr>keys = [], programId = ComputeBudgetProgram_programId, data = 2 # le_bytes 4 units\<rparr>"

definition setComputeUnitPrice :: "int \<Rightarrow> TransactionInstruction" where
  "setComputeUnitPrice microLamports =
     \<lparr>keys = [], programId = ComputeBudgetProgram_programId,
      data = 3 # le_bytes 8 (nat (microLamports mod 2 ^ 64))\<rparr>"

section \<open>Requests and options\<close>

type_synonym Signer = string
type_synonym AddressLookupTableAccount = string

text \<open>
  One element of \<^verbatim>\<open>transactionsData\<close>. The fee payer is declared as a key, but the
  constructor tests it, so a missing payer (\<^verbatim>\<open>null\<close> or \<^verbatim>\<open>undefined\<close> at run time) is
  \<open>None\<close>.
\<close>

record TransactionData =
  instructions :: "TransactionInstruction list"
  feePayer :: "PublicKey option"
  signers :: "Signer list option"
  addressLookupTableAccounts :: "AddressLookupTableAccount list option"

text \<open>The options of \<^verbatim>\<open>execute\<close> that the modelled code reads; every one may be absent.\<close>

record TransactionExecutionOptions =
  enablePriorityFee :: "bool option"
  sendTransactionInterval :: "nat option"
  maxSendTransactionRetries :: "nat option"
  priorityLevel :: "PriorityLevel option"
  maxPriorityFeeSol :: "js_number option"
  exactPriorityFeeSol :: "js_number option"

section \<open>Priority fee and budget injection\<close>

text \<open>The truthiness of a JavaScript number: zero and NaN are falsy.\<close>

definition truthy :: "js_number \<Rightarrow> bool" where
  "truthy x = (x \<noteq> NaN \<and> x \<noteq> Fin 0)"

text \<open>
  \<^verbatim>\<open>BigInt(x.toFixed(0, BigNumber.ROUND_DOWN))\<close>: \<^verbatim>\<open>BigInt\<close> throws a syntax error on the
  strings of NaN and of the infinities.
\<close>

fun BigInt_toFixed0 :: "BigNumber \<Rightarrow> js_error + int" where
  "BigInt_toFixed0 (Fin q) = Inr (round_rat ROUND_DOWN q)"
| "BigInt_toFixed0 x = Inl SyntaxError"

text \<open>
  \<^verbatim>\<open>calculatePriorityFee\<close> of \<^verbatim>\<open>MultiTransactionPayload\<close>. The exact fee is tested for
  truthiness before it is wrapped; a \<^verbatim>\<open>BigNumber\<close> object itself is always truthy.
\<close>

definition calculatePriorityFee ::
  "'c fee_connection_scheme \<Rightarrow> TransactionInstruction list \<Rightarrow> nat \<Rightarrow>
   TransactionExecutionOptions option \<Rightarrow> js_error + int" where
  "calculatePriorityFee conn ixs computeUnit options =
     (let exactFee =
            (case options of
               None \<Rightarrow> None
             | Some opts \<Rightarrow>
                 (case exactPriorityFeeSol opts of
                    None \<Rightarrow> None
                  | Some x \<Rightarrow> if truthy x then Some x else None))
      in case exactFee of
        Some x \<Rightarrow>
          BigInt_toFixed0
            (bn_div (bn_div (bn_minus (bn_times x (Fin LAMPORTS_PER_SOL)) (Fin BASE_FEE_LAMPORTS))
                            (Fin (of_nat computeUnit)))
                    (Fin LAMPORTS_PER_MICRO_LAMPORT))
      | None \<Rightarrow>
          (let level = (case options of
                          None \<Rightarrow> Medium
                        | Some opts \<Rightarrow> (case priorityLevel opts of None \<Rightarrow> Medium | Some l \<Rightarrow> l));
               maxSol = (case options of
                           None \<Rightarrow> Fin DEFAULT_MAX_PRIORITY_FEE
                         | Some opts \<Rightarrow>
                             (case maxPriorityFeeSol opts of
                                None \<Rightarrow> Fin DEFAULT_MAX_PRIORITY_FEE
                              | Some m \<Rightarrow> m));
               maxPriorityFeePerCU =
                 bn_div (bn_div (bn_minus (bn_times maxSol (Fin LAMPORTS_PER_SOL))
                                          (Fin BASE_FEE_LAMPORTS))
                                (Fin (of_nat computeUnit)))
                        (Fin LAMPORTS_PER_MICRO_LAMPORT);
               priorityFeePerCU = getRecentPriorityFee conn ixs level maxPriorityFeePerCU
           in BigInt_toFixed0 priorityFeePerCU))"

text \<open>
  \<^verbatim>\<open>Array.prototype.some\<close> with a callback that may throw: it stops at the first
  element the callback accepts, and a throw ends it.
\<close>

fun some_throwing :: "('a \<Rightarrow> js_error + bool) \<Rightarrow> 'a list \<Rightarrow> js_error + bool" where
  "some_throwing p [] = Inr False"
| "some_throwing p (x # xs) =
     (case p x of
        Inl e \<Rightarrow> Inl e
      | Inr True \<Rightarrow> Inr True
      | Inr False \<Rightarrow> some_throwing p xs)"

text \<open>
  The callback of the two scans:
  \<^verbatim>\<open>ix.programId.equals(ComputeBudgetProgram.programId) && decodeInstructionType(ix) === t\<close>.
\<close>

definition is_budget_instruction ::
  "ComputeBudgetInstructionType \<Rightarrow> TransactionInstruction \<Rightarrow> js_error + bool" where
  "is_budget_instruction t instruction =
     (if programId instruction = ComputeBudgetProgram_programId
      then (case decodeInstructionType instruction of
              Inl e \<Rightarrow> Inl e
            | Inr ty \<Rightarrow> Inr (ty = t))
      else Inr False)"

text \<open>
  \<^verbatim>\<open>addPriorityFeeInstructions\<close>: the array is changed in place (\<^verbatim>\<open>unshift\<close>) and
  returned. The result is the error, if the call throws, and the array as the call
  leaves it.
\<close>

definition addPriorityFeeInstructions ::
  "'c fee_connection_scheme \<Rightarrow> TransactionInstruction list \<Rightarrow> nat \<Rightarrow>
   TransactionExecutionOptions option \<Rightarrow> js_error option \<times> TransactionInstruction list" where
  "addPriorityFeeInstructions conn ixs computeUnit options =
     (case some_throwing (is_budget_instruction SetComputeUnitLimit) ixs of
        Inl e \<Rightarrow> (Some e, ixs)
      | Inr hasComputeUnitLimitInstruction \<Rightarrow>
     (case some_throwing (is_budget_instruction SetComputeUnitPrice) ixs of
        Inl e \<Rightarrow> (Some e, ixs)
      | Inr hasComputeUnitPriceInstruction \<Rightarrow>
     (let ixs1 = (if \<not> hasComputeUnitLimitInstruction
                  then setComputeUnitLimit computeUnit # ixs else ixs)
      in if \<not> hasComputeUnitPriceInstruction
         then (case calculatePriorityFee conn ixs1 computeUnit options of
                 Inl e \<Rightarrow> (Some e, ixs1)
               | Inr priorityFeeInMicroLamports \<Rightarrow>
                   (None, setComputeUnitPrice priorityFeeInMicroLamports # ixs1))
         else (None, ixs1))))"

text \<open>How many instructions of a list a scan for the type \<open>t\<close> accepts.\<close>

definition count_budget :: "ComputeBudgetInstructionType \<Rightarrow> TransactionInstruction list \<Rightarrow> nat" where
  "count_budget t ixs = length (filter (\<lambda>ix. is_budget_instruction t ix = Inr True) ixs)"

section \<open>Construction\<close>

text \<open>
  The loop of \<^verbatim>\<open>validateTransactionData\<close> over the entries, from the index \<open>index\<close> on;
  \<open>None\<close> means that nothing was thrown.
\<close>

fun validate_entries :: "nat \<Rightarrow> TransactionData list \<Rightarrow> js_error option" where
  "validate_entries index [] = None"
| "validate_entries index (d # ds) =
     (if length (instructions d) = 0
      then Some (Error (Some (''Transaction '' @ string_of_nat index @ '': No instructions provided'')))
      else if feePayer d = None
      then Some (Error (Some (''Transaction '' @ string_of_nat index @ '': Fee payer is required'')))
      else validate_entries (Suc index) ds)"

definition validateTransactionData :: "TransactionData list \<Rightarrow> js_error option" where
  "validateTransactionData tds =
     (if length tds = 0 then Some (Error (Some ''At least one transaction is required''))
      else validate_entries 0 tds)"

text \<open>
  The single-transaction payload class: its constructor has an empty body and stores its
  arguments.
\<close>

record TransactionPayload =
  transactionData :: TransactionData

definition TransactionPayload_new :: "TransactionData \<Rightarrow> js_error + TransactionPayload" where
  "TransactionPayload_new td = Inr \<lparr>transactionData = td\<rparr>"

section \<open>Transactions and the RPC connection\<close>

text \<open>
  A compiled transaction: the content of its message and the signatures it carries, in
  order. The first signature identifies the transaction. Compiling and signing are
  library calls; they are modelled as total.
\<close>

record VersionedTransaction =
  message_instructions :: "TransactionInstruction list"
  payerKey :: "PublicKey option"
  recentBlockhash :: string
  lookupTables :: "AddressLookupTableAccount list option"
  signatures :: "string list"

definition newVersionedTransaction :: "TransactionData \<Rightarrow> string \<Rightarrow> VersionedTransaction" where
  "newVersionedTransaction d bh =
     \<lparr>message_instructions = instructions d, payerKey = feePayer d, recentBlockhash = bh,
      lookupTables = addressLookupTableAccounts d, signatures = []\<rparr>"

definition sign_with :: "Signer list \<Rightarrow> VersionedTransaction \<Rightarrow> VersionedTransaction" where
  "sign_with sgs tx = tx\<lparr>signatures := signatures tx @ sgs\<rparr>"

text \<open>\<^verbatim>\<open>data.signers?.length\<close> is truthy: the signers are present and not empty.\<close>

definition has_signers :: "TransactionData \<Rightarrow> bool" where
  "has_signers d = (case signers d of None \<Rightarrow> False | Some sgs \<Rightarrow> length sgs \<noteq> 0)"

definition the_signers :: "TransactionData \<Rightarrow> Signer list" where
  "the_signers d = (case signers d of None \<Rightarrow> [] | Some sgs \<Rightarrow> sgs)"

record BlockhashWithExpiryBlockHeight =
  blockhash :: string
  lastValidBlockHeight :: nat

record SimulatedTransactionResponse =
  simulation_err :: "string option"
  unitsConsumed :: "nat option"

text \<open>
  The RPC connection of a payload. Every call is a network round trip that returns or
  throws. \<open>getLatestBlockhash k\<close> is the answer to the \<open>k\<close>-th call of an execution, and
  \<open>simulateTransaction i\<close> the answer to the simulation of the \<open>i\<close>-th transaction of
  the batch.
\<close>

record connection = fee_connection +
  getLatestBlockhash :: "nat \<Rightarrow> js_error + BlockhashWithExpiryBlockHeight"
  simulateTransaction :: "nat \<Rightarrow> VersionedTransaction \<Rightarrow> js_error + SimulatedTransactionResponse"

text \<open>
  What the code calls outside the repository and the RPC: anchor's \<^verbatim>\<open>translateError\<close>
  and \<^verbatim>\<open>JSON.stringify\<close> (of an error, and of the list of index and message pairs).
\<close>

record runtime =
  translateError :: "js_error \<Rightarrow> (nat \<Rightarrow> string option) \<Rightarrow> js_error"
  JSON_stringify_error :: "js_error \<Rightarrow> string"
  JSON_stringify_entries :: "(nat \<times> string) list \<Rightarrow> string"

section \<open>The batch payload\<close>

record MultiTransactionPayload =
  p_connection :: connection
  p_errors :: "nat \<Rightarrow> string option"
  transactionsData :: "TransactionData list"
  p_signAllTransactions ::
    "(VersionedTransaction list \<Rightarrow> js_error + VersionedTransaction list) option"

definition SIGN_FUNCTION_REQUIRED :: string where
  "SIGN_FUNCTION_REQUIRED = ''signTransaction is required to execute transaction payload.''"

definition BLOCK_HEIGHT_EXCEEDED :: string where
  "BLOCK_HEIGHT_EXCEEDED = ''Block height exceeded before confirmation''"

text \<open>The constructor runs \<^verbatim>\<open>validateTransactionData\<close> and calls nothing else.\<close>

definition MultiTransactionPayload_new ::
  "connection \<Rightarrow> (nat \<Rightarrow> string option) \<Rightarrow> TransactionData list \<Rightarrow>
   (VersionedTransaction list \<Rightarrow> js_error + VersionedTransaction list) option \<Rightarrow>
   js_error + MultiTransactionPayload" where
  "MultiTransactionPayload_new conn errs tds signAll =
     (case validateTransactionData tds of
        Some e \<Rightarrow> Inl e
      | None \<Rightarrow>
          Inr \<lparr>p_connection = conn, p_errors = errs, transactionsData = tds,
               p_signAllTransactions = signAll\<rparr>)"

text \<open>
  \<^verbatim>\<open>simulate\<close>. The simulations run concurrently; a failing one appends its index and
  translated error to \<^verbatim>\<open>simulationErrors\<close> when it completes. \<open>finish i\<close> is the time
  at which the \<open>i\<close>-th simulation completes, so the entries are in the order of
  completion. \<open>k\<close> numbers the call of \<^verbatim>\<open>getLatestBlockhash\<close>.
\<close>

definition simulation_message :: "runtime \<Rightarrow> (nat \<times> js_error) list \<Rightarrow> string" where
  "simulation_message rt simulationErrors =
     ''One or more simulation failed:'' @ [CHR 0x0A] @
     JSON_stringify_entries rt
       (map (\<lambda>(index, error).
               (index, case error_message error of
                         Some m \<Rightarrow> m
                       | None \<Rightarrow> JSON_stringify_error rt error))
            simulationErrors)"

definition simulate ::
  "runtime \<Rightarrow> MultiTransactionPayload \<Rightarrow> nat \<Rightarrow> bool \<Rightarrow> (nat \<Rightarrow> nat) \<Rightarrow>
   js_error + (nat \<times> SimulatedTransactionResponse) list" where
  "simulate rt p k sigVerify finish =
     (case getLatestBlockhash (p_connection p) k of
        Inl e \<Rightarrow> Inl e
      | Inr latest \<Rightarrow>
     (let transactions =
            map (\<lambda>d. let tx = newVersionedTransaction d (blockhash latest)
                      in if sigVerify \<and> has_signers d then sign_with (the_signers d) tx else tx)
                (transactionsData p)
      in case (if sigVerify
               then (case p_signAllTransactions p of
                       None \<Rightarrow> Inl (Error (Some SIGN_FUNCTION_REQUIRED))
                     | Some signAll \<Rightarrow> signAll transactions)
               else Inr transactions) of
        Inl e \<Rightarrow> Inl e
      | Inr signedTransactions \<Rightarrow>
     (let simulationErrors =
            List.map_filter
              (\<lambda>i. case simulateTransaction (p_connection p) i (signedTransactions ! i) of
                      Inl error \<Rightarrow> Some (i, translateError rt error (p_errors p))
                    | Inr r \<Rightarrow> None)
              (sort_key finish [0..<length signedTransactions]);
          simulationResult =
            map (\<lambda>i. case simulateTransaction (p_connection p) i (signedTransactions ! i) of
                        Inl error \<Rightarrow> None
                      | Inr r \<Rightarrow> Some (i, r))
                [0..<length signedTransactions]
      in if length simulationErrors \<noteq> 0
         then Inl (MultiTransactionSimulationError
                     (simulation_message rt simulationErrors) simulationErrors)
         else Inr (List.map_filter (\<lambda>x. x) simulationResult))))"

definition buildVersionTransactions :: "TransactionData list \<Rightarrow> string \<Rightarrow> VersionedTransaction list" where
  "buildVersionTransactions tds bh =
     map (\<lambda>d. let tx = newVersionedTransaction d bh
               in if has_signers d then sign_with (the_signers d) tx else tx)
         tds"

text \<open>\<^verbatim>\<open>parseSolanaSendTransactionError\<close>; \<open>Inl\<close> when reading the message throws.\<close>

definition parseSolanaSendTransactionError ::
  "runtime \<Rightarrow> js_error \<Rightarrow> (nat \<Rightarrow> string option) \<Rightarrow> js_error + js_error" where
  "parseSolanaSendTransactionError rt error idlErrors =
     (let translatedError = translateError rt error idlErrors
      in case error_message translatedError of
        None \<Rightarrow> Inl (Error (Some ''Cannot read properties of undefined (reading includes)''))
      | Some m \<Rightarrow>
          if includes_str m ''Attempt to debit an account but found no record of a prior credit.''
             \<or> includes_str m ''custom program error: 0x1''
             \<or> includes_str m ''insufficient funds''
          then Inr (Error (Some ''An account does not have enough SOL for transaction''))
          else Inr translatedError)"

datatype PromiseSettledResult = Fulfilled string | Rejected js_error

record ExecuteReturnItem =
  settled :: PromiseSettledResult
  item_transactionData :: TransactionData
  item_transaction :: VersionedTransaction

text \<open>
  The compute unit limit that \<^verbatim>\<open>execute\<close> derives from the simulation of the \<open>i\<close>-th
  request: \<^verbatim>\<open>Math.floor((unitsConsumed + 400) * 1.1)\<close> when units were reported and are
  not zero, the maximum otherwise. (The product is taken exactly.)
\<close>

definition computeUnit_of :: "(nat \<times> SimulatedTransactionResponse) list \<Rightarrow> nat \<Rightarrow> nat" where
  "computeUnit_of simulationResults i =
     (case map_of simulationResults i of
        None \<Rightarrow> MAX_COMPUTE_UNIT
      | Some simulationResult \<Rightarrow>
          (case unitsConsumed simulationResult of
             None \<Rightarrow> MAX_COMPUTE_UNIT
           | Some u \<Rightarrow>
               if u \<noteq> 0 then ((u + COMPUTE_BUDGET_PROGRAM_COMPUTE_UNIT) * 11) div 10
               else MAX_COMPUTE_UNIT))"

text \<open>
  The injection over the whole batch, from the index \<open>i\<close> on. Every request is treated,
  also after one has failed; the error reported is the one of the lowest index.
\<close>

fun inject_all ::
  "connection \<Rightarrow> (nat \<times> SimulatedTransactionResponse) list \<Rightarrow>
   TransactionExecutionOptions option \<Rightarrow> nat \<Rightarrow> TransactionData list \<Rightarrow>
   js_error option \<times> TransactionData list" where
  "inject_all conn sims options i [] = (None, [])"
| "inject_all conn sims options i (d # ds) =
     (let r = addPriorityFeeInstructions conn (instructions d) (computeUnit_of sims i) options;
          rest = inject_all conn sims options (Suc i) ds
      in ((case fst r of Some e \<Rightarrow> Some e | None \<Rightarrow> fst rest),
          d\<lparr>instructions := snd r\<rparr> # snd rest))"

text \<open>
  One transaction of the batch, from its signature to its settled result. This version
  of the class imports its send and confirm functions (with their abort signal) from the
  utilities module; \<open>sendAndConfirm\<close> stands for their joint outcome for the \<open>i\<close>-th
  transaction, whatever it is.
\<close>

definition settle ::
  "runtime \<Rightarrow> (nat \<Rightarrow> string option) \<Rightarrow>
   (nat \<Rightarrow> VersionedTransaction \<Rightarrow> string \<Rightarrow> BlockhashWithExpiryBlockHeight \<Rightarrow> js_error + unit) \<Rightarrow>
   BlockhashWithExpiryBlockHeight \<Rightarrow> nat \<Rightarrow> VersionedTransaction \<Rightarrow> PromiseSettledResult" where
  "settle rt errs sendAndConfirm latest i signedTransaction =
     (let outcome =
            (case signatures signedTransaction of
               [] \<Rightarrow> Inl (Error (Some ''Expected Uint8Array''))
             | signature # others \<Rightarrow>
                 (case sendAndConfirm i signedTransaction signature latest of
                    Inl err \<Rightarrow> Inl err
                  | Inr u \<Rightarrow> Inr signature))
      in case outcome of
        Inr signature \<Rightarrow> Fulfilled signature
      | Inl err \<Rightarrow>
          (case parseSolanaSendTransactionError rt err errs of
             Inl t \<Rightarrow> Rejected t
           | Inr e \<Rightarrow> Rejected e))"

text \<open>
  The result of \<^verbatim>\<open>execute\<close>: what it returns or throws, the requests of the payload as the
  call leaves them (the injection changes their instruction arrays in place), and the
  signed transactions that were handed to the send stage.
\<close>

record execution =
  returned :: "js_error + ExecuteReturnItem list"
  requests_after :: "TransactionData list"
  broadcast :: "VersionedTransaction list"

definition execute ::
  "runtime \<Rightarrow> MultiTransactionPayload \<Rightarrow> TransactionExecutionOptions option \<Rightarrow> (nat \<Rightarrow> nat) \<Rightarrow>
   (nat \<Rightarrow> VersionedTransaction \<Rightarrow> string \<Rightarrow> BlockhashWithExpiryBlockHeight \<Rightarrow> js_error + unit) \<Rightarrow>
   execution" where
  "execute rt p options finish sendAndConfirm =
     (case p_signAllTransactions p of
        None \<Rightarrow>
          \<lparr>returned = Inl (Error (Some SIGN_FUNCTION_REQUIRED)),
           requests_after = transactionsData p, broadcast = []\<rparr>
      | Some signAll \<Rightarrow>
     (let enabled = (case options of
                       None \<Rightarrow> True
                     | Some opts \<Rightarrow> (case enablePriorityFee opts of None \<Rightarrow> True | Some b \<Rightarrow> b));
          injected =
            (if enabled
             then (case simulate rt p 0 True finish of
                     Inl e \<Rightarrow> (Some e, transactionsData p)
                   | Inr simulationResults \<Rightarrow>
                       inject_all (p_connection p) simulationResults options 0 (transactionsData p))
             else (None, transactionsData p))
      in case fst injected of
        Some e \<Rightarrow> \<lparr>returned = Inl e, requests_after = snd injected, broadcast = []\<rparr>
      | None \<Rightarrow>
     (case getLatestBlockhash (p_connection p) (if enabled then 1 else 0) of
        Inl e \<Rightarrow> \<lparr>returned = Inl e, requests_after = snd injected, broadcast = []\<rparr>
      | Inr latest \<Rightarrow>
     (let transactions = buildVersionTransactions (snd injected) (blockhash latest)
      in case signAll transactions of
        Inl e \<Rightarrow> \<lparr>returned = Inl e, requests_after = snd injected, broadcast = []\<rparr>
      | Inr signedTransactions \<Rightarrow>
     (let results = map (\<lambda>i. settle rt (p_errors p) sendAndConfirm latest i (signedTransactions ! i))
                        [0..<length signedTransactions]
      in if length results \<noteq> length (snd injected)
         then \<lparr>returned = Inl (AssertionError ''Results length mismatch''),
               requests_after = snd injected, broadcast = signedTransactions\<rparr>
         else if length results \<noteq> length transactions
         then \<lparr>returned = Inl (AssertionError ''Results length mismatch''),
               requests_after = snd injected, broadcast = signedTransactions\<rparr>
         else
           \<lparr>returned =
              Inr (map (\<lambda>i. \<lparr>settled = results ! i,
                               item_transactionData = snd injected ! i,
                               item_transaction = transactions ! i\<rparr>)
                       [0..<length results]),
            requests_after = snd injected, broadcast = signedTransactions\<rparr>)))))"

section \<open>The sending loop\<close>

text \<open>
  \<^verbatim>\<open>sendTransactionWithRetry\<close> as the payload classes define it themselves. The two
  RPC calls of the loop are network round trips that return or throw; \<open>getBlockHeight k\<close>
  and \<open>sendRawTransaction k\<close> are the answers to the \<open>k\<close>-th call of each.
\<close>

record send_connection =
  getBlockHeight :: "nat \<Rightarrow> js_error + nat"
  sendRawTransaction :: "nat \<Rightarrow> js_error + string"

definition ALREADY_PROCESSED :: string where
  "ALREADY_PROCESSED = ''This transaction has already been processed''"

definition BLOCKHASH_NOT_FOUND :: string where
  "BLOCKHASH_NOT_FOUND = ''Blockhash not found''"

definition MAX_SAFE_INTEGER :: nat where
  "MAX_SAFE_INTEGER = 9007199254740991"

text \<open>\<^verbatim>\<open>err.message?.includes(s)\<close>: falsy when the error has no message.\<close>

definition message_includes :: "js_error \<Rightarrow> string \<Rightarrow> bool" where
  "message_includes err s =
     (case error_message err of None \<Rightarrow> False | Some m \<Rightarrow> includes_str m s)"

text \<open>
  How the loop is left: by the \<^verbatim>\<open>return\<close> in the handler, by a throw, or because its
  condition fails, with the block height and the retry count it then has.
\<close>

datatype loop_exit = EarlyReturn | Thrown js_error | LoopEnded nat nat

text \<open>
  One pass through the body of the loop: either the loop goes on with a new retry count,
  block height and call counts, or it is left. \<open>loop_pass\<close> also gives the error that the
  handler caught in this pass, if any: the \<^verbatim>\<open>try\<close> block holds the send and the fetch
  of the block height after it.
\<close>

datatype pass = Continue nat nat nat nat | Leave loop_exit

definition handler :: "send_connection \<Rightarrow> js_error \<Rightarrow> nat \<Rightarrow> nat \<Rightarrow> nat \<Rightarrow> pass" where
  "handler c err retry s h =
     (if message_includes err ALREADY_PROCESSED then Leave EarlyReturn
      else if message_includes err BLOCKHASH_NOT_FOUND
      then (case getBlockHeight c h of
              Inl e \<Rightarrow> Leave (Thrown e)
            | Inr blockHeight \<Rightarrow> Continue (Suc retry) blockHeight s (Suc h))
      else Leave (Thrown err))"

definition loop_pass :: "send_connection \<Rightarrow> nat \<Rightarrow> nat \<Rightarrow> nat \<Rightarrow> pass \<times> js_error list" where
  "loop_pass c retry s h =
     (case sendRawTransaction c s of
        Inl err \<Rightarrow> (handler c err retry (Suc s) h, [err])
      | Inr sent \<Rightarrow>
          (case getBlockHeight c h of
             Inl err \<Rightarrow> (handler c err (Suc retry) (Suc s) (Suc h), [err])
           | Inr blockHeight \<Rightarrow> (Continue (Suc retry) blockHeight (Suc s) (Suc h), [])))"

lemma loop_pass_retry:
  "loop_pass c retry s h = (Continue retry' bh s' h', caught) \<Longrightarrow> retry < retry'"
  by (auto simp: loop_pass_def handler_def split: sum.splits if_splits)

function sendLoop ::
  "send_connection \<Rightarrow> nat \<Rightarrow> nat \<Rightarrow> nat \<Rightarrow> nat \<Rightarrow> nat \<Rightarrow> nat \<Rightarrow> loop_exit \<times> js_error list" where
  "sendLoop c lastValid maxRetries retry blockHeight s h =
     (if blockHeight < lastValid \<and> retry < maxRetries
      then (case loop_pass c retry s h of
              (Leave ex, caught) \<Rightarrow> (ex, caught)
            | (Continue retry' blockHeight' s' h', caught) \<Rightarrow>
                (let r = sendLoop c lastValid maxRetries retry' blockHeight' s' h'
                 in (fst r, caught @ snd r)))
      else (LoopEnded blockHeight retry, []))"
  by pat_completeness auto
termination
  by (relation "measure (\<lambda>(c, lastValid, maxRetries, retry, blockHeight, s, h). maxRetries - retry)")
     (auto dest!: loop_pass_retry [OF sym])

declare sendLoop.simps [simp del]

datatype send_outcome = Returned | RaisedBlockHeightExceeded | Rethrown js_error

text \<open>The error that the caller sees, if any.\<close>

fun outcome_error :: "send_outcome \<Rightarrow> js_error option" where
  "outcome_error Returned = None"
| "outcome_error RaisedBlockHeightExceeded = Some (Error (Some BLOCK_HEIGHT_EXCEEDED))"
| "outcome_error (Rethrown e) = Some e"

text \<open>
  The result of a call: its outcome, how the loop was left (\<open>None\<close> when the first
  \<^verbatim>\<open>getBlockHeight\<close> threw and the loop was never reached), and the errors that the
  handler of the loop caught, in order.
\<close>

record sending =
  outcome :: send_outcome
  loop_left :: "loop_exit option"
  caught_errors :: "js_error list"

definition sendTransactionWithRetry ::
  "send_connection \<Rightarrow> nat \<Rightarrow> TransactionExecutionOptions option \<Rightarrow> sending" where
  "sendTransactionWithRetry c lastValid options =
     (let maxRetries =
            (case options of
               None \<Rightarrow> MAX_SAFE_INTEGER
             | Some opts \<Rightarrow>
                 (case maxSendTransactionRetries opts of None \<Rightarrow> MAX_SAFE_INTEGER | Some m \<Rightarrow> m))
      in case getBlockHeight c 0 of
        Inl e \<Rightarrow> \<lparr>outcome = Rethrown e, loop_left = None, caught_errors = []\<rparr>
      | Inr blockHeight \<Rightarrow>
          (let r = sendLoop c lastValid maxRetries 0 blockHeight 0 1
           in \<lparr>outcome =
                  (case fst r of
                     EarlyReturn \<Rightarrow> Returned
                   | Thrown e \<Rightarrow> Rethrown e
                   | LoopEnded finalHeight finalRetry \<Rightarrow>
                       if finalHeight \<ge> lastValid then RaisedBlockHeightExceeded else Returned),
                loop_left = Some (fst r), caught_errors = snd r\<rparr>))"
section \<open>Properties of the filter and sort\<close>

lemma set_insort_cmp: "set (insort_cmp c x ys) = insert x (set ys)"
  by (induction ys) auto

lemma set_array_sort: "set (array_sort c xs) = set xs"
  unfolding array_sort_def by (induction xs) (auto simp: set_insort_cmp)



lemma num_lt_irrefl: "\<not> num_lt a a"
  by (cases a) auto

lemma num_lt_trans: "num_lt a b \<Longrightarrow> num_lt b c \<Longrightarrow> num_lt a c"
  by (cases a; cases b; cases c) auto

lemma num_lt_total: "a \<noteq> NaN \<Longrightarrow> b \<noteq> NaN \<Longrightarrow> num_lt a b \<or> a = b \<or> num_lt b a"
  by (cases a; cases b) auto

lemma num_lt_asym: "num_lt a b \<Longrightarrow> \<not> num_lt b a"
  by (cases a; cases b) auto

lemma fee_comparator_le:
  "prioritizationFee a \<noteq> NaN \<Longrightarrow> prioritizationFee b \<noteq> NaN \<Longrightarrow>
   (fee_comparator a b \<le> 0) = fee_le a b"
  using num_lt_total [of "prioritizationFee a" "prioritizationFee b"]
        num_lt_asym [of "prioritizationFee a" "prioritizationFee b"]
        num_lt_irrefl [of "prioritizationFee a"]
  by (auto simp: fee_comparator_def comparedTo_def fee_le_def num_le_def)

lemma fee_le_total:
  "prioritizationFee a \<noteq> NaN \<Longrightarrow> prioritizationFee b \<noteq> NaN \<Longrightarrow> fee_le a b \<or> fee_le b a"
  using num_lt_total [of "prioritizationFee a" "prioritizationFee b"]
  by (auto simp: fee_le_def num_le_def)

lemma fee_le_trans: "fee_le a b \<Longrightarrow> fee_le b c \<Longrightarrow> fee_le a c"
  using num_lt_trans [of "prioritizationFee a" "prioritizationFee b" "prioritizationFee c"]
  by (auto simp: fee_le_def num_le_def)

lemma sorted_insort_cmp:
  assumes "sorted_wrt fee_le ys" "prioritizationFee x \<noteq> NaN"
    and "\<forall>y \<in> set ys. prioritizationFee y \<noteq> NaN"
  shows "sorted_wrt fee_le (insort_cmp fee_comparator x ys)"
  using assms
proof (induction ys)
  case Nil
  then show ?case by simp
next
  case (Cons y ys)
  show ?case
  proof (cases "fee_comparator x y \<le> 0")
    case True
    then have xy: "fee_le x y"
      using Cons.prems fee_comparator_le by auto
    have "\<forall>z \<in> set ys. fee_le x z"
      using Cons.prems(1) xy fee_le_trans by auto
    then show ?thesis using True xy Cons.prems(1) by simp
  next
    case False
    then have "\<not> fee_le x y"
      using Cons.prems fee_comparator_le by auto
    then have yx: "fee_le y x"
      using Cons.prems fee_le_total by auto
    have "sorted_wrt fee_le (insort_cmp fee_comparator x ys)"
      using Cons by simp
    then show ?thesis
      using False yx Cons.prems(1) by (auto simp: set_insort_cmp)
  qed
qed

lemma sorted_array_sort:
  "\<forall>y \<in> set xs. prioritizationFee y \<noteq> NaN \<Longrightarrow> sorted_wrt fee_le (array_sort fee_comparator xs)"
proof (induction xs)
  case Nil
  then show ?case by (simp add: array_sort_def)
next
  case (Cons x xs)
  have "sorted_wrt fee_le (insort_cmp fee_comparator x (array_sort fee_comparator xs))"
    using Cons by (intro sorted_insort_cmp) (auto simp: set_array_sort)
  then show ?case by (simp add: array_sort_def)
qed

lemma array_sort_sorted_id:
  "sorted_wrt fee_le xs \<Longrightarrow> \<forall>y \<in> set xs. prioritizationFee y \<noteq> NaN \<Longrightarrow>
   array_sort fee_comparator xs = xs"
proof (induction xs)
  case Nil
  then show ?case by (simp add: array_sort_def)
next
  case (Cons x xs)
  then have ih: "array_sort fee_comparator xs = xs" by simp
  have "insort_cmp fee_comparator x xs = x # xs"
  proof (cases xs)
    case Nil
    then show ?thesis by simp
  next
    case (Cons y ys)
    then have "fee_le x y" using Cons.prems(1) by simp
    then have "fee_comparator x y \<le> 0"
      using Cons.prems(2) Cons fee_comparator_le by auto
    then show ?thesis using Cons by simp
  qed
  then show ?case using ih by (simp add: array_sort_def)
qed

lemma replace_kept:
  "s \<in> set (replaceNonZeroAndSortPrioritizationFeesAsc fees) \<Longrightarrow> kept s"
  by (auto simp: replaceNonZeroAndSortPrioritizationFeesAsc_def set_array_sort kept_def
      Number_isNaN_def)

lemma replace_sorted:
  "sorted_wrt fee_le (replaceNonZeroAndSortPrioritizationFeesAsc fees)"
  unfolding replaceNonZeroAndSortPrioritizationFeesAsc_def
  by (rule sorted_array_sort) (auto simp: Number_isNaN_def)

lemma replace_idem:
  "replaceNonZeroAndSortPrioritizationFeesAsc (replaceNonZeroAndSortPrioritizationFeesAsc fees)
   = replaceNonZeroAndSortPrioritizationFeesAsc fees"
proof -
  let ?out = "replaceNonZeroAndSortPrioritizationFeesAsc fees"
  have k: "\<forall>s \<in> set ?out. kept s" using replace_kept by blast
  then have f: "filter (\<lambda>fee. \<not> Number_isNaN (prioritizationFee fee) \<and>
                      num_lt (Fin 0) (prioritizationFee fee)) ?out = ?out"
    by (auto simp: kept_def Number_isNaN_def)
  have "array_sort fee_comparator ?out = ?out"
    using replace_sorted k by (intro array_sort_sorted_id) (auto simp: kept_def)
  then show ?thesis
    using f by (metis replaceNonZeroAndSortPrioritizationFeesAsc_def)
qed

section \<open>Properties of the fee estimator\<close>

lemma nth_kept:
  "i < length (replaceNonZeroAndSortPrioritizationFeesAsc fees) \<Longrightarrow>
   kept (replaceNonZeroAndSortPrioritizationFeesAsc fees ! i)"
  using replace_kept nth_mem by blast

lemma round_down_nonneg:
  "x \<noteq> NaN \<Longrightarrow> \<not> num_lt x (Fin 0) \<Longrightarrow> decimalPlaces0 ROUND_DOWN x = rounded_down x"
  by (cases x) auto

lemma round_half_up_20_nonneg: "0 \<le> q \<Longrightarrow> 0 \<le> round_half_up_20 q"
proof -
  assume q: "0 \<le> q"
  then have "0 \<le> q * 10 ^ 20 + 1 / 2" by simp
  then have "0 \<le> \<lfloor>q * 10 ^ 20 + 1 / 2\<rfloor>" by simp
  then show ?thesis using q by (simp add: round_half_up_20_def)
qed

text \<open>Half a whole number has one decimal place, so the rounding leaves it as it is.\<close>

lemma round_half_up_20_half: "0 \<le> k \<Longrightarrow> round_half_up_20 (of_int k / 2) = of_int k / 2"
proof -
  assume k: "0 \<le> k"
  have e: "(of_int k / 2 :: rat) * 10 ^ 20 = of_int (k * (5 * 10 ^ 19))" by simp
  have "\<lfloor>(of_int (k * (5 * 10 ^ 19)) :: rat) + 1 / 2\<rfloor> = k * (5 * 10 ^ 19)"
    by (rule floor_unique) simp_all
  then have "(of_int \<lfloor>(of_int k / 2 :: rat) * 10 ^ 20 + 1 / 2\<rfloor> :: rat) / 10 ^ 20
             = of_int (k * (5 * 10 ^ 19)) / 10 ^ 20"
    unfolding e by simp
  also have "\<dots> = of_int k / 2" by simp
  finally show ?thesis using k by (simp add: round_half_up_20_def)
qed

lemma half_sum_nonneg:
  "num_lt (Fin 0) a \<Longrightarrow> num_lt (Fin 0) b \<Longrightarrow>
   bn_div (bn_plus a b) (Fin 2) \<noteq> NaN \<and> \<not> num_lt (bn_div (bn_plus a b) (Fin 2)) (Fin 0)"
proof (cases a; cases b)
  fix x y
  assume ab: "a = Fin x" "b = Fin y" and pos: "num_lt (Fin 0) a" "num_lt (Fin 0) b"
  then have "0 \<le> (x + y) / 2" by simp
  then have "0 \<le> round_half_up_20 ((x + y) / 2)" by (rule round_half_up_20_nonneg)
  then show ?thesis using ab by (simp add: bn_div_def is_inf_def)
qed (auto simp: bn_div_def is_inf_def signed_inf_def)

text \<open>For whole or infinite positive values the quotient of the code is the average.\<close>

lemma half_sum_exact:
  assumes "num_lt (Fin 0) a" "num_lt (Fin 0) b"
    and "is_whole a \<or> a = PosInf" "is_whole b \<or> b = PosInf"
  shows "bn_div (bn_plus a b) (Fin 2) = average a b"
proof (cases a; cases b)
  fix x y
  assume ab: "a = Fin x" "b = Fin y"
  then have "is_whole (Fin x)" "is_whole (Fin y)" and p: "0 < x" "0 < y"
    using assms by simp_all
  then have w: "of_int \<lfloor>x\<rfloor> = x" "of_int \<lfloor>y\<rfloor> = y"
    by (simp_all only: is_whole.simps)
  have "of_int (\<lfloor>x\<rfloor> + \<lfloor>y\<rfloor>) = (of_int \<lfloor>x\<rfloor> :: rat) + of_int \<lfloor>y\<rfloor>"
    by (rule of_int_add)
  then have s: "x + y = of_int (\<lfloor>x\<rfloor> + \<lfloor>y\<rfloor>)" by (simp only: w)
  have "0 \<le> \<lfloor>x\<rfloor> + \<lfloor>y\<rfloor>" using p by simp
  then have "round_half_up_20 (of_int (\<lfloor>x\<rfloor> + \<lfloor>y\<rfloor>) / 2) = of_int (\<lfloor>x\<rfloor> + \<lfloor>y\<rfloor>) / 2"
    by (rule round_half_up_20_half)
  then have "round_half_up_20 ((x + y) / 2) = (x + y) / 2" using s by simp
  then show ?thesis using ab by (simp add: bn_div_def is_inf_def average_def)
qed (use assms in \<open>auto simp: bn_div_def is_inf_def signed_inf_def average_def\<close>)

lemma pos_not_neg: "num_lt (Fin 0) x \<Longrightarrow> x \<noteq> NaN \<and> \<not> num_lt x (Fin 0)"
  by (cases x) auto

lemma rounded_down_nonneg:
  "x \<noteq> NaN \<Longrightarrow> \<not> num_lt x (Fin 0) \<Longrightarrow> \<not> num_lt (rounded_down x) (Fin 0) \<and> rounded_down x \<noteq> NaN"
  by (cases x) auto

lemma medianFee_odd:
  assumes "length xs mod 2 = 1" "\<forall>s \<in> set xs. kept s"
  shows "medianFee xs = rounded_down (prioritizationFee (xs ! (length xs div 2)))"
proof -
  have pos: "0 < length xs" using assms(1) by (cases xs) auto
  then have "length xs div 2 < length xs" by simp
  then have "kept (xs ! (length xs div 2))" using assms(2) nth_mem by blast
  then have "decimalPlaces0 ROUND_DOWN (prioritizationFee (xs ! (length xs div 2)))
             = rounded_down (prioritizationFee (xs ! (length xs div 2)))"
    using pos_not_neg round_down_nonneg by (simp add: kept_def)
  then show ?thesis using assms(1) pos by (simp add: medianFee_def Let_def)
qed

lemma medianFee_even:
  assumes "0 < length xs" "length xs mod 2 = 0" "\<forall>s \<in> set xs. kept s"
  shows "medianFee xs =
         rounded_down (bn_div (bn_plus (prioritizationFee (xs ! (length xs div 2 - 1)))
                                       (prioritizationFee (xs ! (length xs div 2))))
                              (Fin 2))"
proof -
  have "length xs div 2 < length xs" "length xs div 2 - 1 < length xs"
    using assms(1) by (simp, arith)
  then have "kept (xs ! (length xs div 2))" "kept (xs ! (length xs div 2 - 1))"
    using assms(3) nth_mem by blast+
  then have "decimalPlaces0 ROUND_DOWN
               (bn_div (bn_plus (prioritizationFee (xs ! (length xs div 2 - 1)))
                                (prioritizationFee (xs ! (length xs div 2))))
                       (Fin 2))
             = rounded_down
                 (bn_div (bn_plus (prioritizationFee (xs ! (length xs div 2 - 1)))
                                  (prioritizationFee (xs ! (length xs div 2))))
                         (Fin 2))"
    using half_sum_nonneg round_down_nonneg by (simp add: kept_def)
  then show ?thesis using assms(1,2) by (simp add: medianFee_def Let_def)
qed

lemma medianFee_nonneg:
  assumes "\<forall>s \<in> set xs. kept s"
  shows "medianFee xs \<noteq> NaN \<and> \<not> num_lt (medianFee xs) (Fin 0)"
proof (cases "length xs = 0")
  case True
  then show ?thesis by (simp add: medianFee_def)
next
  case False
  then have pos: "0 < length xs" by simp
  show ?thesis
  proof (cases "length xs mod 2 = 1")
    case True
    have "length xs div 2 < length xs" using pos by simp
    then have "kept (xs ! (length xs div 2))" using assms nth_mem by blast
    then show ?thesis
      using medianFee_odd [OF True assms] rounded_down_nonneg pos_not_neg
      by (simp add: kept_def)
  next
    case False
    then have ev: "length xs mod 2 = 0" by presburger
    have "length xs div 2 < length xs" "length xs div 2 - 1 < length xs"
      using pos by (simp, arith)
    then have "kept (xs ! (length xs div 2))" "kept (xs ! (length xs div 2 - 1))"
      using assms nth_mem by blast+
    then have "bn_div (bn_plus (prioritizationFee (xs ! (length xs div 2 - 1)))
                               (prioritizationFee (xs ! (length xs div 2))))
                      (Fin 2) \<noteq> NaN \<and>
               \<not> num_lt (bn_div (bn_plus (prioritizationFee (xs ! (length xs div 2 - 1)))
                                          (prioritizationFee (xs ! (length xs div 2))))
                                 (Fin 2)) (Fin 0)"
      using half_sum_nonneg by (simp add: kept_def)
    then show ?thesis
      using medianFee_even [OF pos ev assms] rounded_down_nonneg by simp
  qed
qed

lemma calculatedFee_not_NaN: "m \<noteq> NaN \<Longrightarrow> calculatedFee m level \<noteq> NaN"
  by (cases m; cases level)
     (auto simp: calculatedFee_def bn_times_def signed_inf_def)

lemma bn_min_le_cap: "a \<noteq> NaN \<Longrightarrow> cap \<noteq> NaN \<Longrightarrow> num_le (bn_min a cap) cap"
  using num_lt_total [of a cap] by (auto simp: bn_min_def num_le_def)

lemma calculatedFee_finite:
  "calculatedFee (Fin q) level = Fin (of_int \<lceil>q * multipliers level\<rceil>)"
  by (simp add: calculatedFee_def bn_times_def)

text \<open>
  C6. For every list of fee samples, the filter-and-sort operation returns a list that is
  sorted ascending by fee, in which no fee is NaN and every fee is positive, and applying
  the operation to its own output returns that output unchanged.
\<close>

theorem C6_filter_sort:
  "sorted_wrt fee_le (replaceNonZeroAndSortPrioritizationFeesAsc fees) \<and>
   (\<forall>s \<in> set (replaceNonZeroAndSortPrioritizationFeesAsc fees).
      prioritizationFee s \<noteq> NaN \<and> num_lt (Fin 0) (prioritizationFee s)
      \<and> \<not> num_le (prioritizationFee s) (Fin 0)) \<and>
   replaceNonZeroAndSortPrioritizationFeesAsc (replaceNonZeroAndSortPrioritizationFeesAsc fees)
     = replaceNonZeroAndSortPrioritizationFeesAsc fees"
proof -
  have "\<And>s. kept s \<Longrightarrow> \<not> num_le (prioritizationFee s) (Fin 0)"
    using num_lt_asym by (auto simp: kept_def num_le_def num_lt_irrefl)
  then show ?thesis
    using replace_sorted [of fees] replace_idem [of fees] replace_kept [of _ fees]
    by (auto simp: kept_def)
qed

theorem C6_filter_sort_witness:
  "replaceNonZeroAndSortPrioritizationFeesAsc
     [\<lparr>slot = 1, prioritizationFee = NaN\<rparr>, \<lparr>slot = 2, prioritizationFee = Fin 8514\<rparr>,
      \<lparr>slot = 3, prioritizationFee = Fin 0\<rparr>, \<lparr>slot = 4, prioritizationFee = Fin 1904\<rparr>,
      \<lparr>slot = 5, prioritizationFee = Fin (- 7)\<rparr>, \<lparr>slot = 6, prioritizationFee = Fin 1904\<rparr>]
   = [\<lparr>slot = 4, prioritizationFee = Fin 1904\<rparr>, \<lparr>slot = 6, prioritizationFee = Fin 1904\<rparr>,
      \<lparr>slot = 2, prioritizationFee = Fin 8514\<rparr>] \<and>
   sorted_wrt fee_le
     [\<lparr>slot = 4, prioritizationFee = Fin 1904\<rparr>, \<lparr>slot = 6, prioritizationFee = Fin 1904\<rparr>,
      \<lparr>slot = 2, prioritizationFee = Fin 8514\<rparr>] \<and>
   replaceNonZeroAndSortPrioritizationFeesAsc
     [\<lparr>slot = 4, prioritizationFee = Fin 1904\<rparr>, \<lparr>slot = 6, prioritizationFee = Fin 1904\<rparr>,
      \<lparr>slot = 2, prioritizationFee = Fin 8514\<rparr>]
   = [\<lparr>slot = 4, prioritizationFee = Fin 1904\<rparr>, \<lparr>slot = 6, prioritizationFee = Fin 1904\<rparr>,
      \<lparr>slot = 2, prioritizationFee = Fin 8514\<rparr>]"
proof -
  have e: "replaceNonZeroAndSortPrioritizationFeesAsc
     [\<lparr>slot = 1, prioritizationFee = NaN\<rparr>, \<lparr>slot = 2, prioritizationFee = Fin 8514\<rparr>,
      \<lparr>slot = 3, prioritizationFee = Fin 0\<rparr>, \<lparr>slot = 4, prioritizationFee = Fin 1904\<rparr>,
      \<lparr>slot = 5, prioritizationFee = Fin (- 7)\<rparr>, \<lparr>slot = 6, prioritizationFee = Fin 1904\<rparr>]
   = [\<lparr>slot = 4, prioritizationFee = Fin 1904\<rparr>, \<lparr>slot = 6, prioritizationFee = Fin 1904\<rparr>,
      \<lparr>slot = 2, prioritizationFee = Fin 8514\<rparr>]"
    by (simp add: replaceNonZeroAndSortPrioritizationFeesAsc_def array_sort_def
        fee_comparator_def comparedTo_def Number_isNaN_def)
  show ?thesis
    using C6_filter_sort [of "[\<lparr>slot = 1, prioritizationFee = NaN\<rparr>, \<lparr>slot = 2, prioritizationFee = Fin 8514\<rparr>,
      \<lparr>slot = 3, prioritizationFee = Fin 0\<rparr>, \<lparr>slot = 4, prioritizationFee = Fin 1904\<rparr>,
      \<lparr>slot = 5, prioritizationFee = Fin (- 7)\<rparr>, \<lparr>slot = 6, prioritizationFee = Fin 1904\<rparr>]"]
    unfolding e by blast
qed

text \<open>
  C4. Whatever samples the fetch returns (none at all included) and also when the fetch
  throws and the fallback fee is used, the fee that the estimator returns is at most the
  supplied cap. The cap is a number: with a NaN cap the result is NaN, which compares
  with nothing.
\<close>

theorem C4_fee_at_most_cap:
  assumes "cap \<noteq> NaN"
  shows "num_le (getRecentPriorityFee conn ixs level cap) cap"
proof (cases "getRecentPrioritizationFees conn (lockedWritableAccounts ixs)")
  case (Inl e)
  then show ?thesis
    using assms bn_min_le_cap by (simp add: getRecentPriorityFee_def)
next
  case (Inr fees)
  have "medianFee (replaceNonZeroAndSortPrioritizationFeesAsc fees) \<noteq> NaN"
    using medianFee_nonneg replace_kept by blast
  then have "calculatedFee (medianFee (replaceNonZeroAndSortPrioritizationFeesAsc fees)) level \<noteq> NaN"
    by (rule calculatedFee_not_NaN)
  then show ?thesis
    using Inr assms bn_min_le_cap by (simp add: getRecentPriorityFee_def)
qed


theorem C4_fee_at_most_cap_witness:
  "Fin 100 \<noteq> NaN \<and>
   num_le (getRecentPriorityFee
             \<lparr>getRecentPrioritizationFees =
                (\<lambda>accounts. Inr [\<lparr>slot = 1, prioritizationFee = Fin 8514\<rparr>,
                                  \<lparr>slot = 2, prioritizationFee = Fin 1904\<rparr>])\<rparr>
             [] High (Fin 100))
          (Fin 100) \<and>
   getRecentPriorityFee
     \<lparr>getRecentPrioritizationFees =
        (\<lambda>accounts. Inr [\<lparr>slot = 1, prioritizationFee = Fin 8514\<rparr>,
                          \<lparr>slot = 2, prioritizationFee = Fin 1904\<rparr>])\<rparr>
     [] High (Fin 100) = Fin 100 \<and>
   getRecentPriorityFee \<lparr>getRecentPrioritizationFees = (\<lambda>accounts. Inl (Error None))\<rparr>
     [] Low (Fin 300) = Fin 300 \<and>
   getRecentPriorityFee \<lparr>getRecentPrioritizationFees = (\<lambda>accounts. Inr [])\<rparr>
     [] Medium (Fin 300) = Fin 0"
proof -
  have h: "Fin 100 \<noteq> NaN" by simp
  have a: "getRecentPriorityFee
     \<lparr>getRecentPrioritizationFees =
        (\<lambda>accounts. Inr [\<lparr>slot = 1, prioritizationFee = Fin 8514\<rparr>,
                          \<lparr>slot = 2, prioritizationFee = Fin 1904\<rparr>])\<rparr>
     [] High (Fin 100) = Fin 100"
    by code_simp
  have b: "getRecentPriorityFee \<lparr>getRecentPrioritizationFees = (\<lambda>accounts. Inl (Error None))\<rparr>
     [] Low (Fin 300) = Fin 300"
    by code_simp
  have c: "getRecentPriorityFee \<lparr>getRecentPrioritizationFees = (\<lambda>accounts. Inr [])\<rparr>
     [] Medium (Fin 300) = Fin 0"
    by code_simp
  show ?thesis
    using C4_fee_at_most_cap [OF h, of
        "\<lparr>getRecentPrioritizationFees =
            (\<lambda>accounts. Inr [\<lparr>slot = 1, prioritizationFee = Fin 8514\<rparr>,
                              \<lparr>slot = 2, prioritizationFee = Fin 1904\<rparr>])\<rparr>" "[]" High]
      a b c by simp
qed

text \<open>
  C5, as the code has it. On the filtered and sorted samples the median is: zero for the
  empty list; the middle element rounded down for an odd length; for an even length the
  half of the sum of the two middle elements, as the division of \<^verbatim>\<open>BigNumber\<close> gives it
  (rounded to twenty decimal places, half up), rounded down, which is the average rounded
  down whenever the two elements are whole numbers or infinite. For a single sample it is
  that sample rounded down, so it equals the sample exactly when the sample is a whole
  number or infinite.
\<close>

theorem C5_median:
  "(length (replaceNonZeroAndSortPrioritizationFeesAsc fees) = 0 \<longrightarrow>
      medianFee (replaceNonZeroAndSortPrioritizationFeesAsc fees) = Fin 0) \<and>
   (length (replaceNonZeroAndSortPrioritizationFeesAsc fees) mod 2 = 1 \<longrightarrow>
      medianFee (replaceNonZeroAndSortPrioritizationFeesAsc fees) =
        rounded_down (prioritizationFee (replaceNonZeroAndSortPrioritizationFeesAsc fees ! (length (replaceNonZeroAndSortPrioritizationFeesAsc fees) div 2)))) \<and>
   (0 < length (replaceNonZeroAndSortPrioritizationFeesAsc fees) \<and>
    length (replaceNonZeroAndSortPrioritizationFeesAsc fees) mod 2 = 0 \<longrightarrow>
      medianFee (replaceNonZeroAndSortPrioritizationFeesAsc fees) =
        rounded_down (bn_div (bn_plus (prioritizationFee (replaceNonZeroAndSortPrioritizationFeesAsc fees ! (length (replaceNonZeroAndSortPrioritizationFeesAsc fees) div 2 - 1)))
                                      (prioritizationFee (replaceNonZeroAndSortPrioritizationFeesAsc fees ! (length (replaceNonZeroAndSortPrioritizationFeesAsc fees) div 2))))
                             (Fin 2)) \<and>
      ((is_whole (prioritizationFee (replaceNonZeroAndSortPrioritizationFeesAsc fees ! (length (replaceNonZeroAndSortPrioritizationFeesAsc fees) div 2 - 1))) \<or>
        prioritizationFee (replaceNonZeroAndSortPrioritizationFeesAsc fees ! (length (replaceNonZeroAndSortPrioritizationFeesAsc fees) div 2 - 1)) = PosInf) \<and>
       (is_whole (prioritizationFee (replaceNonZeroAndSortPrioritizationFeesAsc fees ! (length (replaceNonZeroAndSortPrioritizationFeesAsc fees) div 2))) \<or>
        prioritizationFee (replaceNonZeroAndSortPrioritizationFeesAsc fees ! (length (replaceNonZeroAndSortPrioritizationFeesAsc fees) div 2)) = PosInf) \<longrightarrow>
       medianFee (replaceNonZeroAndSortPrioritizationFeesAsc fees) =
         rounded_down (average (prioritizationFee (replaceNonZeroAndSortPrioritizationFeesAsc fees ! (length (replaceNonZeroAndSortPrioritizationFeesAsc fees) div 2 - 1)))
                               (prioritizationFee (replaceNonZeroAndSortPrioritizationFeesAsc fees ! (length (replaceNonZeroAndSortPrioritizationFeesAsc fees) div 2)))))) \<and>
   (length (replaceNonZeroAndSortPrioritizationFeesAsc fees) = 1 \<longrightarrow>
      medianFee (replaceNonZeroAndSortPrioritizationFeesAsc fees) =
        rounded_down (prioritizationFee (replaceNonZeroAndSortPrioritizationFeesAsc fees ! (0))) \<and>
      ((medianFee (replaceNonZeroAndSortPrioritizationFeesAsc fees) =
          prioritizationFee (replaceNonZeroAndSortPrioritizationFeesAsc fees ! (0))) =
       (is_whole (prioritizationFee (replaceNonZeroAndSortPrioritizationFeesAsc fees ! (0))) \<or>
        prioritizationFee (replaceNonZeroAndSortPrioritizationFeesAsc fees ! (0)) = PosInf)))"
proof -
  let ?xs = "replaceNonZeroAndSortPrioritizationFeesAsc fees"
  let ?lo = "prioritizationFee (?xs ! (length ?xs div 2 - 1))"
  let ?hi = "prioritizationFee (?xs ! (length ?xs div 2))"
  have k: "\<forall>s \<in> set ?xs. kept s" using replace_kept by blast
  have e: "length ?xs = 0 \<longrightarrow> medianFee ?xs = Fin 0"
    by (simp add: medianFee_def)
  have od: "length ?xs mod 2 = 1 \<longrightarrow> medianFee ?xs = rounded_down ?hi"
    using medianFee_odd [OF _ k] by (intro impI)
  have ev: "0 < length ?xs \<and> length ?xs mod 2 = 0 \<longrightarrow>
      medianFee ?xs = rounded_down (bn_div (bn_plus ?lo ?hi) (Fin 2)) \<and>
      ((is_whole ?lo \<or> ?lo = PosInf) \<and> (is_whole ?hi \<or> ?hi = PosInf) \<longrightarrow>
       medianFee ?xs = rounded_down (average ?lo ?hi))"
  proof
    assume h: "0 < length ?xs \<and> length ?xs mod 2 = 0"
    then have m: "medianFee ?xs = rounded_down (bn_div (bn_plus ?lo ?hi) (Fin 2))"
      using medianFee_even [OF _ _ k] by simp
    have "length ?xs div 2 < length ?xs" "length ?xs div 2 - 1 < length ?xs"
      using h by (simp, arith)
    then have "kept (?xs ! (length ?xs div 2))" "kept (?xs ! (length ?xs div 2 - 1))"
      using nth_kept by blast+
    then have p: "num_lt (Fin 0) ?lo" "num_lt (Fin 0) ?hi" by (simp_all add: kept_def)
    have x: "(is_whole ?lo \<or> ?lo = PosInf) \<and> (is_whole ?hi \<or> ?hi = PosInf) \<longrightarrow>
       medianFee ?xs = rounded_down (average ?lo ?hi)"
    proof
      assume w: "(is_whole ?lo \<or> ?lo = PosInf) \<and> (is_whole ?hi \<or> ?hi = PosInf)"
      have "bn_div (bn_plus ?lo ?hi) (Fin 2) = average ?lo ?hi"
        using half_sum_exact [OF p] w by simp
      then show "medianFee ?xs = rounded_down (average ?lo ?hi)" using m by simp
    qed
    show "medianFee ?xs = rounded_down (bn_div (bn_plus ?lo ?hi) (Fin 2)) \<and>
      ((is_whole ?lo \<or> ?lo = PosInf) \<and> (is_whole ?hi \<or> ?hi = PosInf) \<longrightarrow>
       medianFee ?xs = rounded_down (average ?lo ?hi))"
      by (rule conjI [OF m x])
  qed
  have one: "length ?xs = 1 \<longrightarrow>
      medianFee ?xs = rounded_down (prioritizationFee (?xs ! (0))) \<and>
      ((medianFee ?xs = prioritizationFee (?xs ! (0))) =
       (is_whole (prioritizationFee (?xs ! (0))) \<or> prioritizationFee (?xs ! (0)) = PosInf))"
  proof
    assume l: "length ?xs = 1"
    then have m: "medianFee ?xs = rounded_down (prioritizationFee (?xs ! 0))"
      using od by simp
    have "kept (?xs ! 0)" using l nth_kept [of 0 fees] by simp
    then have "(rounded_down (prioritizationFee (?xs ! 0)) = prioritizationFee (?xs ! 0)) =
       (is_whole (prioritizationFee (?xs ! 0)) \<or> prioritizationFee (?xs ! 0) = PosInf)"
      by (cases "prioritizationFee (?xs ! 0)") (auto simp: kept_def)
    then show "medianFee ?xs = rounded_down (prioritizationFee (?xs ! (0))) \<and>
      ((medianFee ?xs = prioritizationFee (?xs ! (0))) =
       (is_whole (prioritizationFee (?xs ! (0))) \<or> prioritizationFee (?xs ! (0)) = PosInf))"
      using m by simp
  qed
  show ?thesis by (rule conjI [OF e conjI [OF od conjI [OF ev one]]])
qed

theorem C5_median_witness:
  "length (replaceNonZeroAndSortPrioritizationFeesAsc
     [\<lparr>slot = 1, prioritizationFee = Fin 10\<rparr>, \<lparr>slot = 2, prioritizationFee = NaN\<rparr>,
      \<lparr>slot = 3, prioritizationFee = Fin (7 / 2)\<rparr>, \<lparr>slot = 4, prioritizationFee = Fin 4\<rparr>]) mod 2 = 1 \<and>
   medianFee (replaceNonZeroAndSortPrioritizationFeesAsc
     [\<lparr>slot = 1, prioritizationFee = Fin 10\<rparr>, \<lparr>slot = 2, prioritizationFee = NaN\<rparr>,
      \<lparr>slot = 3, prioritizationFee = Fin (7 / 2)\<rparr>, \<lparr>slot = 4, prioritizationFee = Fin 4\<rparr>]) = Fin 4 \<and>
   length (replaceNonZeroAndSortPrioritizationFeesAsc
     [\<lparr>slot = 1, prioritizationFee = Fin 10\<rparr>, \<lparr>slot = 2, prioritizationFee = Fin 5\<rparr>]) mod 2 = 0 \<and>
   medianFee (replaceNonZeroAndSortPrioritizationFeesAsc
     [\<lparr>slot = 1, prioritizationFee = Fin 10\<rparr>, \<lparr>slot = 2, prioritizationFee = Fin 5\<rparr>]) = Fin 7 \<and>
   length (replaceNonZeroAndSortPrioritizationFeesAsc [\<lparr>slot = 1, prioritizationFee = Fin 9\<rparr>]) = 1 \<and>
   medianFee (replaceNonZeroAndSortPrioritizationFeesAsc [\<lparr>slot = 1, prioritizationFee = Fin 9\<rparr>]) = Fin 9 \<and>
   length (replaceNonZeroAndSortPrioritizationFeesAsc [\<lparr>slot = 1, prioritizationFee = Fin 0\<rparr>]) = 0 \<and>
   medianFee (replaceNonZeroAndSortPrioritizationFeesAsc [\<lparr>slot = 1, prioritizationFee = Fin 0\<rparr>]) = Fin 0"
proof -
  have a: "replaceNonZeroAndSortPrioritizationFeesAsc
     [\<lparr>slot = 1, prioritizationFee = Fin 10\<rparr>, \<lparr>slot = 2, prioritizationFee = NaN\<rparr>,
      \<lparr>slot = 3, prioritizationFee = Fin (7 / 2)\<rparr>, \<lparr>slot = 4, prioritizationFee = Fin 4\<rparr>]
    = [\<lparr>slot = 3, prioritizationFee = Fin (7 / 2)\<rparr>, \<lparr>slot = 4, prioritizationFee = Fin 4\<rparr>,
       \<lparr>slot = 1, prioritizationFee = Fin 10\<rparr>]"
    by code_simp
  have b: "replaceNonZeroAndSortPrioritizationFeesAsc
     [\<lparr>slot = 1, prioritizationFee = Fin 10\<rparr>, \<lparr>slot = 2, prioritizationFee = Fin 5\<rparr>]
    = [\<lparr>slot = 2, prioritizationFee = Fin 5\<rparr>, \<lparr>slot = 1, prioritizationFee = Fin 10\<rparr>]"
    by code_simp
  have c: "replaceNonZeroAndSortPrioritizationFeesAsc [\<lparr>slot = 1, prioritizationFee = Fin 9\<rparr>]
    = [\<lparr>slot = 1, prioritizationFee = Fin 9\<rparr>]"
    by code_simp
  have d: "replaceNonZeroAndSortPrioritizationFeesAsc [\<lparr>slot = 1, prioritizationFee = Fin 0\<rparr>] = []"
    by code_simp
  have r: "rounded_down (average (Fin 5) (Fin 10)) = Fin 7" by code_simp
  have r2: "rounded_down (bn_div (Fin 15) (Fin 2)) = Fin 7" by code_simp
  show ?thesis
    using C5_median [of "[\<lparr>slot = 1, prioritizationFee = Fin 10\<rparr>, \<lparr>slot = 2, prioritizationFee = NaN\<rparr>,
      \<lparr>slot = 3, prioritizationFee = Fin (7 / 2)\<rparr>, \<lparr>slot = 4, prioritizationFee = Fin 4\<rparr>]"]
      C5_median [of "[\<lparr>slot = 1, prioritizationFee = Fin 10\<rparr>, \<lparr>slot = 2, prioritizationFee = Fin 5\<rparr>]"]
      C5_median [of "[\<lparr>slot = 1, prioritizationFee = Fin 9\<rparr>]"]
      C5_median [of "[\<lparr>slot = 1, prioritizationFee = Fin 0\<rparr>]"]
    unfolding a b c d using r r2 by simp
qed

text \<open>
  The claim C5 as stated fails in two places. For a single sample that is not a whole
  number the median is not the sample: the median of the one sample 1.5 is 1. For an
  even number of samples the median is not always the average rounded down: for the two
  samples 1.9999999999999998 and 0.000000000000000199999 the half of the sum is
  0.9999999999999999999995, which the division rounds to 1 at twenty decimal places, so
  the median is 1 where the average rounded down is 0.
\<close>

theorem C5_median_counterexample:
  "replaceNonZeroAndSortPrioritizationFeesAsc [\<lparr>slot = 1, prioritizationFee = Fin (3 / 2)\<rparr>]
     = [\<lparr>slot = 1, prioritizationFee = Fin (3 / 2)\<rparr>] \<and>
   medianFee (replaceNonZeroAndSortPrioritizationFeesAsc [\<lparr>slot = 1, prioritizationFee = Fin (3 / 2)\<rparr>]) = Fin 1 \<and>
   medianFee (replaceNonZeroAndSortPrioritizationFeesAsc [\<lparr>slot = 1, prioritizationFee = Fin (3 / 2)\<rparr>])
     \<noteq> prioritizationFee \<lparr>slot = 1, prioritizationFee = Fin (3 / 2)\<rparr> \<and>
   replaceNonZeroAndSortPrioritizationFeesAsc
     [\<lparr>slot = 1, prioritizationFee = Fin (19999999999999998 / 10000000000000000)\<rparr>,
      \<lparr>slot = 2, prioritizationFee = Fin (199999 / 1000000000000000000000)\<rparr>]
     = [\<lparr>slot = 2, prioritizationFee = Fin (199999 / 1000000000000000000000)\<rparr>,
        \<lparr>slot = 1, prioritizationFee = Fin (19999999999999998 / 10000000000000000)\<rparr>] \<and>
   medianFee (replaceNonZeroAndSortPrioritizationFeesAsc
     [\<lparr>slot = 1, prioritizationFee = Fin (19999999999999998 / 10000000000000000)\<rparr>,
      \<lparr>slot = 2, prioritizationFee = Fin (199999 / 1000000000000000000000)\<rparr>]) = Fin 1 \<and>
   rounded_down (average (prioritizationFee \<lparr>slot = 2, prioritizationFee = Fin (199999 / 1000000000000000000000)\<rparr>)
                         (prioritizationFee \<lparr>slot = 1, prioritizationFee = Fin (19999999999999998 / 10000000000000000)\<rparr>)) = Fin 0 \<and>
   medianFee (replaceNonZeroAndSortPrioritizationFeesAsc
     [\<lparr>slot = 1, prioritizationFee = Fin (19999999999999998 / 10000000000000000)\<rparr>,
      \<lparr>slot = 2, prioritizationFee = Fin (199999 / 1000000000000000000000)\<rparr>])
     \<noteq> rounded_down (average (prioritizationFee \<lparr>slot = 2, prioritizationFee = Fin (199999 / 1000000000000000000000)\<rparr>)
                                (prioritizationFee \<lparr>slot = 1, prioritizationFee = Fin (19999999999999998 / 10000000000000000)\<rparr>))"
  by code_simp

text \<open>
  C7, as the code has it. The multipliers satisfy low < 1 \<le> medium < high, and the
  multiplied median is rounded up to the next whole number at every level: the code
  passes \<^verbatim>\<open>ROUND_CEIL\<close> whatever the level is.
\<close>

theorem C7_multipliers_round_up:
  "multipliers Low < 1 \<and> 1 \<le> multipliers Medium \<and> multipliers Medium < multipliers High \<and>
   calculatedFee (Fin q) level = rounded_up (Fin (q * multipliers level)) \<and>
   calculatedFee PosInf level = PosInf \<and>
   getRecentPriorityFee \<lparr>getRecentPrioritizationFees = (\<lambda>accounts. Inr fees)\<rparr>
       ixs level cap
     = bn_min (calculatedFee (medianFee (replaceNonZeroAndSortPrioritizationFeesAsc fees)) level)
         cap"
proof -
  have m: "multipliers Low < 1 \<and> 1 \<le> multipliers Medium \<and> multipliers Medium < multipliers High"
    by simp
  have f: "calculatedFee (Fin q) level = rounded_up (Fin (q * multipliers level))"
    by (simp add: calculatedFee_finite)
  have i: "calculatedFee PosInf level = PosInf"
    by (cases level) (simp_all add: calculatedFee_def bn_times_def signed_inf_def)
  have g: "getRecentPriorityFee \<lparr>getRecentPrioritizationFees = (\<lambda>accounts. Inr fees)\<rparr>
       ixs level cap
     = bn_min (calculatedFee (medianFee (replaceNonZeroAndSortPrioritizationFeesAsc fees)) level)
         cap"
    by (simp add: getRecentPriorityFee_def Let_def)
  show ?thesis using m f i g by blast
qed

text \<open>
  The claim C7 as stated fails at the low and medium levels: with the single sample 1
  the median is 1; at the low level 0.8 is rounded up to 1, and at the medium level 1.2 is
  rounded up to 2, where rounding down would give 0 and 1.
\<close>

theorem C7_low_medium_round_down_counterexample:
  "getRecentPriorityFee
     \<lparr>getRecentPrioritizationFees = (\<lambda>accounts. Inr [\<lparr>slot = 1, prioritizationFee = Fin 1\<rparr>])\<rparr>
     [] Low (Fin 1000) = Fin 1 \<and>
   rounded_down (Fin (1 * multipliers Low)) = Fin 0 \<and>
   getRecentPriorityFee
     \<lparr>getRecentPrioritizationFees = (\<lambda>accounts. Inr [\<lparr>slot = 1, prioritizationFee = Fin 1\<rparr>])\<rparr>
     [] Medium (Fin 1000) = Fin 2 \<and>
   rounded_down (Fin (1 * multipliers Medium)) = Fin 1 \<and>
   calculatedFee (Fin 1) Low \<noteq> rounded_down (Fin (1 * multipliers Low)) \<and>
   calculatedFee (Fin 1) Medium \<noteq> rounded_down (Fin (1 * multipliers Medium))"
  by code_simp

section \<open>Properties of the priority fee and of the budget injection\<close>

lemma truthy_zero: "\<not> truthy (Fin 0)"
  by (simp add: truthy_def)

text \<open>Two conversions from lamports to micro-lamports per compute unit, at 1000 units.\<close>

lemma per_unit_995000: "bn_div (bn_div (Fin 995000) (Fin 1000)) (Fin (1 / 1000000)) = Fin 995000000"
  by code_simp

lemma per_unit_1000: "bn_div (bn_div (Fin 1000) (Fin 1000)) (Fin (1 / 1000000)) = Fin 1000000"
  by code_simp

text \<open>
  C10. An exact priority fee of zero is falsy, so it is dropped before the exact path is
  considered: the fee is the one computed without the option, which is the capped
  estimate (or its fallback) at the level and cap of the options. A zero priority fee
  cannot be requested through this option.
\<close>

theorem C10_zero_exact_fee_ignored:
  "calculatePriorityFee conn ixs cu (Some (opts\<lparr>exactPriorityFeeSol := Some (Fin 0)\<rparr>))
     = calculatePriorityFee conn ixs cu (Some (opts\<lparr>exactPriorityFeeSol := None\<rparr>)) \<and>
   calculatePriorityFee conn ixs cu (Some (opts\<lparr>exactPriorityFeeSol := Some (Fin 0)\<rparr>))
     = BigInt_toFixed0
         (getRecentPriorityFee conn ixs
            (case priorityLevel opts of None \<Rightarrow> Medium | Some l \<Rightarrow> l)
            (bn_div (bn_div (bn_minus (bn_times (case maxPriorityFeeSol opts of
                                                   None \<Rightarrow> Fin DEFAULT_MAX_PRIORITY_FEE
                                                 | Some m \<Rightarrow> m)
                                                (Fin LAMPORTS_PER_SOL))
                                      (Fin BASE_FEE_LAMPORTS))
                            (Fin (of_nat cu)))
                    (Fin LAMPORTS_PER_MICRO_LAMPORT)))"
  by (simp add: calculatePriorityFee_def truthy_zero Let_def)

theorem C10_zero_exact_fee_ignored_witness:
  "calculatePriorityFee \<lparr>getRecentPrioritizationFees = (\<lambda>accounts. Inl (Error None))\<rparr> [] 1000
     (Some \<lparr>enablePriorityFee = None, sendTransactionInterval = None,
            maxSendTransactionRetries = None, priorityLevel = None,
            maxPriorityFeeSol = None, exactPriorityFeeSol = Some (Fin 0)\<rparr>) = Inr 5000 \<and>
   calculatePriorityFee \<lparr>getRecentPrioritizationFees = (\<lambda>accounts. Inl (Error None))\<rparr> [] 1000
     (Some \<lparr>enablePriorityFee = None, sendTransactionInterval = None,
            maxSendTransactionRetries = None, priorityLevel = None,
            maxPriorityFeeSol = None, exactPriorityFeeSol = None\<rparr>) = Inr 5000 \<and>
   calculatePriorityFee \<lparr>getRecentPrioritizationFees = (\<lambda>accounts. Inl (Error None))\<rparr> [] 1000
     (Some \<lparr>enablePriorityFee = None, sendTransactionInterval = None,
            maxSendTransactionRetries = None, priorityLevel = None,
            maxPriorityFeeSol = None, exactPriorityFeeSol = Some (Fin (6 / 1000000))\<rparr>) = Inr 1000000"
proof -
  have a: "calculatePriorityFee \<lparr>getRecentPrioritizationFees = (\<lambda>accounts. Inl (Error None))\<rparr> [] 1000
     (Some \<lparr>enablePriorityFee = None, sendTransactionInterval = None,
            maxSendTransactionRetries = None, priorityLevel = None,
            maxPriorityFeeSol = None, exactPriorityFeeSol = None\<rparr>) = Inr 5000"
    by (simp add: calculatePriorityFee_def getRecentPriorityFee_def bn_min_def per_unit_995000
        bn_minus_def bn_times_def DEFAULT_MAX_PRIORITY_FEE_def LAMPORTS_PER_SOL_def
        BASE_FEE_LAMPORTS_def LAMPORTS_PER_MICRO_LAMPORT_def)
  have b: "calculatePriorityFee \<lparr>getRecentPrioritizationFees = (\<lambda>accounts. Inl (Error None))\<rparr> [] 1000
     (Some \<lparr>enablePriorityFee = None, sendTransactionInterval = None,
            maxSendTransactionRetries = None, priorityLevel = None,
            maxPriorityFeeSol = None, exactPriorityFeeSol = Some (Fin (6 / 1000000))\<rparr>) = Inr 1000000"
    by (simp add: calculatePriorityFee_def truthy_def per_unit_1000
        bn_minus_def bn_times_def LAMPORTS_PER_SOL_def
        BASE_FEE_LAMPORTS_def LAMPORTS_PER_MICRO_LAMPORT_def)
  show ?thesis
    using C10_zero_exact_fee_ignored [of "\<lparr>getRecentPrioritizationFees = (\<lambda>accounts. Inl (Error None))\<rparr>"
        "[]" 1000 "\<lparr>enablePriorityFee = None, sendTransactionInterval = None,
            maxSendTransactionRetries = None, priorityLevel = None,
            maxPriorityFeeSol = None, exactPriorityFeeSol = None\<rparr>"] a b
    by simp
qed

lemma limit_is_limit: "is_budget_instruction SetComputeUnitLimit (setComputeUnitLimit u) = Inr True"
  by (simp add: is_budget_instruction_def setComputeUnitLimit_def decodeInstructionType_def)

lemma limit_is_not_price: "is_budget_instruction SetComputeUnitPrice (setComputeUnitLimit u) = Inr False"
  by (simp add: is_budget_instruction_def setComputeUnitLimit_def decodeInstructionType_def)

lemma price_is_price: "is_budget_instruction SetComputeUnitPrice (setComputeUnitPrice f) = Inr True"
  by (simp add: is_budget_instruction_def setComputeUnitPrice_def decodeInstructionType_def)

lemma price_is_not_limit: "is_budget_instruction SetComputeUnitLimit (setComputeUnitPrice f) = Inr False"
  by (simp add: is_budget_instruction_def setComputeUnitPrice_def decodeInstructionType_def)

lemma some_throwing_True:
  "some_throwing p xs = Inr True \<Longrightarrow> 1 \<le> length (filter (\<lambda>x. p x = Inr True) xs)"
  by (induction xs) (auto split: sum.splits bool.splits if_splits)

lemma some_throwing_False:
  "some_throwing p xs = Inr False \<Longrightarrow> length (filter (\<lambda>x. p x = Inr True) xs) = 0"
  by (induction xs) (auto split: sum.splits bool.splits if_splits)

lemma count_budget_Cons:
  "count_budget t (x # xs) = (if is_budget_instruction t x = Inr True then 1 else 0) + count_budget t xs"
  by (simp add: count_budget_def)





lemma inject_present:
  "some_throwing (is_budget_instruction SetComputeUnitLimit) xs = Inr True \<Longrightarrow>
   some_throwing (is_budget_instruction SetComputeUnitPrice) xs = Inr True \<Longrightarrow>
   addPriorityFeeInstructions conn xs cu options = (None, xs)"
  by (simp add: addPriorityFeeInstructions_def)

text \<open>
  What a successful injection returns, by the four outcomes of the two scans: the input
  with the price instruction, the limit instruction, both or none put in front.
\<close>

lemma inject_cases:
  assumes "addPriorityFeeInstructions conn ixs cu options = (None, out)"
  shows "\<exists>hasLimit hasPrice.
           some_throwing (is_budget_instruction SetComputeUnitLimit) ixs = Inr hasLimit \<and>
           some_throwing (is_budget_instruction SetComputeUnitPrice) ixs = Inr hasPrice \<and>
           (\<exists>f. out = (if hasPrice then [] else [setComputeUnitPrice f]) @
                      (if hasLimit then [] else [setComputeUnitLimit cu]) @ ixs)"
proof -
  obtain hl where hl: "some_throwing (is_budget_instruction SetComputeUnitLimit) ixs = Inr hl"
    using assms by (cases "some_throwing (is_budget_instruction SetComputeUnitLimit) ixs")
      (auto simp: addPriorityFeeInstructions_def)
  obtain hp where hp: "some_throwing (is_budget_instruction SetComputeUnitPrice) ixs = Inr hp"
    using assms hl by (cases "some_throwing (is_budget_instruction SetComputeUnitPrice) ixs")
      (auto simp: addPriorityFeeInstructions_def)
  have "\<exists>f. out = (if hp then [] else [setComputeUnitPrice f]) @
                   (if hl then [] else [setComputeUnitLimit cu]) @ ixs"
    using assms hl hp
    by (auto simp: addPriorityFeeInstructions_def Let_def split: sum.splits if_splits)
  then show ?thesis using hl hp by blast
qed

text \<open>
  C3, as the code has it. When an injection succeeds, a second injection into its result
  (with any compute units and options) inserts nothing; the instructions are only put
  in front of the given ones, at most one of each kind; and the result holds exactly one
  limit instruction (one price instruction) when the input held at most one, and as many
  as the input otherwise.
\<close>

theorem C3_injection_idempotent:
  assumes "addPriorityFeeInstructions conn ixs cu options = (None, out)"
  shows "addPriorityFeeInstructions conn2 out cu2 options2 = (None, out) \<and>
         count_budget SetComputeUnitLimit out = max 1 (count_budget SetComputeUnitLimit ixs) \<and>
         count_budget SetComputeUnitPrice out = max 1 (count_budget SetComputeUnitPrice ixs) \<and>
         (\<exists>pre. out = pre @ ixs \<and> length pre \<le> 2)"
proof -
  obtain hl hp f where
    hl: "some_throwing (is_budget_instruction SetComputeUnitLimit) ixs = Inr hl" and
    hp: "some_throwing (is_budget_instruction SetComputeUnitPrice) ixs = Inr hp" and
    out: "out = (if hp then [] else [setComputeUnitPrice f]) @
                (if hl then [] else [setComputeUnitLimit cu]) @ ixs"
    using inject_cases [OF assms] by blast
  have sl: "some_throwing (is_budget_instruction SetComputeUnitLimit) out = Inr True"
    using hl hp out by (cases hl; cases hp) (simp_all add: limit_is_limit price_is_not_limit)
  have sp: "some_throwing (is_budget_instruction SetComputeUnitPrice) out = Inr True"
    using hl hp out by (cases hl; cases hp) (simp_all add: price_is_price limit_is_not_price)
  have a: "addPriorityFeeInstructions conn2 out cu2 options2 = (None, out)"
    using sl sp by (rule inject_present)
  have cl_in: "count_budget SetComputeUnitLimit ixs = (if hl then count_budget SetComputeUnitLimit ixs else 0)"
    using hl some_throwing_False [of "is_budget_instruction SetComputeUnitLimit" ixs]
    by (auto simp: count_budget_def)
  have cl_pos: "hl \<Longrightarrow> 1 \<le> count_budget SetComputeUnitLimit ixs"
    using hl some_throwing_True [of "is_budget_instruction SetComputeUnitLimit" ixs]
    by (auto simp: count_budget_def)
  have cp_in: "count_budget SetComputeUnitPrice ixs = (if hp then count_budget SetComputeUnitPrice ixs else 0)"
    using hp some_throwing_False [of "is_budget_instruction SetComputeUnitPrice" ixs]
    by (auto simp: count_budget_def)
  have cp_pos: "hp \<Longrightarrow> 1 \<le> count_budget SetComputeUnitPrice ixs"
    using hp some_throwing_True [of "is_budget_instruction SetComputeUnitPrice" ixs]
    by (auto simp: count_budget_def)
  have b: "count_budget SetComputeUnitLimit out = max 1 (count_budget SetComputeUnitLimit ixs)"
    using cl_in cl_pos unfolding out
    by (cases hl; cases hp)
       (simp_all add: count_budget_Cons limit_is_limit price_is_not_limit)
  have c: "count_budget SetComputeUnitPrice out = max 1 (count_budget SetComputeUnitPrice ixs)"
    using cp_in cp_pos unfolding out
    by (cases hl; cases hp)
       (simp_all add: count_budget_Cons price_is_price limit_is_not_price)
  have d: "\<exists>pre. out = pre @ ixs \<and> length pre \<le> 2"
  proof -
    have "out = ((if hp then [] else [setComputeUnitPrice f]) @
               (if hl then [] else [setComputeUnitLimit cu])) @ ixs"
      using out by simp
    moreover have "length ((if hp then [] else [setComputeUnitPrice f]) @
               (if hl then [] else [setComputeUnitLimit cu])) \<le> 2"
      by simp
    ultimately show ?thesis by blast
  qed
  show ?thesis using a b c d by (intro conjI)
qed

lemma estimate_without_samples:
  "calculatePriorityFee \<lparr>getRecentPrioritizationFees = (\<lambda>accounts. Inr [])\<rparr> ixs 1000 None = Inr 0"
  by (simp add: calculatePriorityFee_def getRecentPriorityFee_def
      replaceNonZeroAndSortPrioritizationFeesAsc_def array_sort_def medianFee_def
      calculatedFee_def bn_times_def bn_min_def per_unit_995000 bn_minus_def
      DEFAULT_MAX_PRIORITY_FEE_def LAMPORTS_PER_SOL_def BASE_FEE_LAMPORTS_def
      LAMPORTS_PER_MICRO_LAMPORT_def)

lemma transfer_is_no_budget_instruction:
  "is_budget_instruction t \<lparr>keys = [], programId = ''11111111111111111111111111111111'', data = [2, 0, 0, 0]\<rparr>
   = Inr False"
  by (simp add: is_budget_instruction_def ComputeBudgetProgram_programId_def)

theorem C3_injection_idempotent_witness:
  "addPriorityFeeInstructions \<lparr>getRecentPrioritizationFees = (\<lambda>accounts. Inr [])\<rparr>
     [\<lparr>keys = [], programId = ''11111111111111111111111111111111'', data = [2, 0, 0, 0]\<rparr>] 1000 None
   = (None, [setComputeUnitPrice 0, setComputeUnitLimit 1000,
             \<lparr>keys = [], programId = ''11111111111111111111111111111111'', data = [2, 0, 0, 0]\<rparr>]) \<and>
   addPriorityFeeInstructions \<lparr>getRecentPrioritizationFees = (\<lambda>accounts. Inl (Error None))\<rparr>
     [setComputeUnitPrice 0, setComputeUnitLimit 1000,
      \<lparr>keys = [], programId = ''11111111111111111111111111111111'', data = [2, 0, 0, 0]\<rparr>] 5 None
   = (None, [setComputeUnitPrice 0, setComputeUnitLimit 1000,
             \<lparr>keys = [], programId = ''11111111111111111111111111111111'', data = [2, 0, 0, 0]\<rparr>]) \<and>
   count_budget SetComputeUnitLimit
     [setComputeUnitPrice 0, setComputeUnitLimit 1000,
      \<lparr>keys = [], programId = ''11111111111111111111111111111111'', data = [2, 0, 0, 0]\<rparr>] = 1 \<and>
   count_budget SetComputeUnitPrice
     [setComputeUnitPrice 0, setComputeUnitLimit 1000,
      \<lparr>keys = [], programId = ''11111111111111111111111111111111'', data = [2, 0, 0, 0]\<rparr>] = 1"
proof -
  have e: "addPriorityFeeInstructions \<lparr>getRecentPrioritizationFees = (\<lambda>accounts. Inr [])\<rparr>
     [\<lparr>keys = [], programId = ''11111111111111111111111111111111'', data = [2, 0, 0, 0]\<rparr>] 1000 None
   = (None, [setComputeUnitPrice 0, setComputeUnitLimit 1000,
             \<lparr>keys = [], programId = ''11111111111111111111111111111111'', data = [2, 0, 0, 0]\<rparr>])"
    by (simp add: addPriorityFeeInstructions_def transfer_is_no_budget_instruction
        estimate_without_samples)
  have z: "count_budget t
     [\<lparr>keys = [], programId = ''11111111111111111111111111111111'', data = [2, 0, 0, 0]\<rparr>] = 0" for t
    by (simp add: count_budget_def transfer_is_no_budget_instruction)
  show ?thesis
    using C3_injection_idempotent [OF e,
        of "\<lparr>getRecentPrioritizationFees = (\<lambda>accounts. Inl (Error None))\<rparr>" 5 None]
      e z by simp
qed

text \<open>
  The claim C3 as stated fails for a list that already holds two limit instructions: the
  scan finds one, nothing is inserted for the limit, and the result holds both.
\<close>

theorem C3_duplicate_limit_counterexample:
  "addPriorityFeeInstructions \<lparr>getRecentPrioritizationFees = (\<lambda>accounts. Inr [])\<rparr>
     [setComputeUnitLimit 1, setComputeUnitLimit 2] 1000 None
   = (None, [setComputeUnitPrice 0, setComputeUnitLimit 1, setComputeUnitLimit 2]) \<and>
   count_budget SetComputeUnitLimit
     [setComputeUnitPrice 0, setComputeUnitLimit 1, setComputeUnitLimit 2] = 2 \<and>
   \<not> count_budget SetComputeUnitLimit
       (snd (addPriorityFeeInstructions \<lparr>getRecentPrioritizationFees = (\<lambda>accounts. Inr [])\<rparr>
               [setComputeUnitLimit 1, setComputeUnitLimit 2] 1000 None)) \<le> 1"
proof -
  have e: "addPriorityFeeInstructions \<lparr>getRecentPrioritizationFees = (\<lambda>accounts. Inr [])\<rparr>
     [setComputeUnitLimit 1, setComputeUnitLimit 2] 1000 None
   = (None, [setComputeUnitPrice 0, setComputeUnitLimit 1, setComputeUnitLimit 2])"
    by (simp add: addPriorityFeeInstructions_def limit_is_limit limit_is_not_price
        estimate_without_samples)
  have c: "count_budget SetComputeUnitLimit
     [setComputeUnitPrice 0, setComputeUnitLimit 1, setComputeUnitLimit 2] = 2"
    by (simp add: count_budget_Cons limit_is_limit price_is_not_limit count_budget_def)
  show ?thesis using e c by simp
qed

section \<open>Properties of construction\<close>

lemma string_of_nat_0: "string_of_nat 0 = ''0''"
  by code_simp

lemma validate_entries_None:
  "(validate_entries i tds = None) = (\<forall>d \<in> set tds. instructions d \<noteq> [] \<and> feePayer d \<noteq> None)"
  by (induction tds arbitrary: i) auto

lemma validateTransactionData_None:
  "(validateTransactionData tds = None) =
   (tds \<noteq> [] \<and> (\<forall>d \<in> set tds. instructions d \<noteq> [] \<and> feePayer d \<noteq> None))"
  by (auto simp: validateTransactionData_def validate_entries_None)

text \<open>
  The batch constructor rejects an empty batch, an empty instruction list and a missing
  fee payer, whatever the connection is, and accepts everything else.
\<close>

lemma MultiTransactionPayload_new_rejects:
  "(\<exists>e. MultiTransactionPayload_new conn errs tds signAll = Inl e) =
   (tds = [] \<or> (\<exists>d \<in> set tds. instructions d = [] \<or> feePayer d = None))"
proof (cases "validateTransactionData tds")
  case None
  then show ?thesis
    using validateTransactionData_None [of tds] by (auto simp: MultiTransactionPayload_new_def)
next
  case (Some e)
  then show ?thesis
    using validateTransactionData_None [of tds] by (auto simp: MultiTransactionPayload_new_def)
qed

text \<open>
  C9. The single-transaction constructor checks nothing: a request with no instruction and
  no fee payer is accepted, where the batch constructor rejects the same request (and the
  empty batch) with an error.
\<close>

theorem C9_single_payload_unchecked:
  "TransactionPayload_new
     \<lparr>instructions = [], feePayer = None, signers = None, addressLookupTableAccounts = None\<rparr>
   = Inr \<lparr>transactionData =
            \<lparr>instructions = [], feePayer = None, signers = None, addressLookupTableAccounts = None\<rparr>\<rparr> \<and>
   MultiTransactionPayload_new conn errs
     [\<lparr>instructions = [], feePayer = None, signers = None, addressLookupTableAccounts = None\<rparr>] signAll
   = Inl (Error (Some ''Transaction 0: No instructions provided'')) \<and>
   MultiTransactionPayload_new conn errs
     [\<lparr>instructions = [ix], feePayer = None, signers = None, addressLookupTableAccounts = None\<rparr>] signAll
   = Inl (Error (Some ''Transaction 0: Fee payer is required'')) \<and>
   MultiTransactionPayload_new conn errs [] signAll
   = Inl (Error (Some ''At least one transaction is required''))"
  by (simp add: TransactionPayload_new_def MultiTransactionPayload_new_def
      validateTransactionData_def string_of_nat_0 del: string_of_nat.simps)

section \<open>Properties of the sending loop\<close>


lemma handler_already: "message_includes err ALREADY_PROCESSED \<Longrightarrow> handler c err retry s h = Leave EarlyReturn"
  by (simp add: handler_def)

lemma handler_early:
  "handler c err retry s h = Leave EarlyReturn \<Longrightarrow> message_includes err ALREADY_PROCESSED"
  by (auto simp: handler_def split: if_splits sum.splits)

lemma loop_pass_already:
  "loop_pass c retry s h = (p, caught) \<Longrightarrow> e \<in> set caught \<Longrightarrow>
   message_includes e ALREADY_PROCESSED \<Longrightarrow> p = Leave EarlyReturn"
  by (auto simp: loop_pass_def handler_already split: sum.splits)

lemma loop_pass_early:
  "loop_pass c retry s h = (Leave EarlyReturn, caught) \<Longrightarrow>
   caught \<noteq> [] \<and> message_includes (last caught) ALREADY_PROCESSED"
  by (auto simp: loop_pass_def split: sum.splits dest: handler_early)

lemma sendLoop_stop:
  "\<not> (blockHeight < lastValid \<and> retry < maxRetries) \<Longrightarrow>
   sendLoop c lastValid maxRetries retry blockHeight s h = (LoopEnded blockHeight retry, [])"
  by (subst sendLoop.simps) (rule if_not_P)

lemma sendLoop_leave:
  "blockHeight < lastValid \<and> retry < maxRetries \<Longrightarrow> loop_pass c retry s h = (Leave ex, caught) \<Longrightarrow>
   sendLoop c lastValid maxRetries retry blockHeight s h = (ex, caught)"
  by (subst sendLoop.simps) simp

lemma sendLoop_continue:
  "blockHeight < lastValid \<and> retry < maxRetries \<Longrightarrow>
   loop_pass c retry s h = (Continue r b s' h', caught) \<Longrightarrow>
   sendLoop c lastValid maxRetries retry blockHeight s h =
     (fst (sendLoop c lastValid maxRetries r b s' h'),
      caught @ snd (sendLoop c lastValid maxRetries r b s' h'))"
  by (subst sendLoop.simps) (simp add: Let_def)

lemma sendLoop_already:
  "e \<in> set (snd (sendLoop c lastValid maxRetries retry blockHeight s h)) \<Longrightarrow>
   message_includes e ALREADY_PROCESSED \<Longrightarrow>
   fst (sendLoop c lastValid maxRetries retry blockHeight s h) = EarlyReturn"
proof (induction c lastValid maxRetries retry blockHeight s h rule: sendLoop.induct)
  case (1 c lastValid maxRetries retry blockHeight s h)
  show ?case
  proof (cases "blockHeight < lastValid \<and> retry < maxRetries")
    case False
    then show ?thesis using "1.prems" sendLoop_stop [OF False] by simp
  next
    case True
    obtain p caught where lp: "loop_pass c retry s h = (p, caught)"
      by (cases "loop_pass c retry s h") auto
    show ?thesis
    proof (cases p)
      case (Leave ex)
      then have eq: "sendLoop c lastValid maxRetries retry blockHeight s h = (ex, caught)"
        using True lp sendLoop_leave by blast
      then have "e \<in> set caught" using "1.prems"(1) by simp
      then have "p = Leave EarlyReturn" using lp "1.prems"(2) loop_pass_already by blast
      then show ?thesis using eq Leave by simp
    next
      case (Continue r b s' h')
      let ?rest = "sendLoop c lastValid maxRetries r b s' h'"
      have eq: "sendLoop c lastValid maxRetries retry blockHeight s h = (fst ?rest, caught @ snd ?rest)"
        using True lp Continue sendLoop_continue by blast
      have "e \<notin> set caught"
        using lp Continue "1.prems"(2) loop_pass_already by blast
      then have "e \<in> set (snd ?rest)" using "1.prems"(1) eq by simp
      then have "fst ?rest = EarlyReturn"
        using "1.IH" [OF True lp [symmetric] Continue] "1.prems"(2) by blast
      then show ?thesis using eq by simp
    qed
  qed
qed

lemma sendLoop_ended:
  "fst (sendLoop c lastValid maxRetries retry blockHeight s h) = LoopEnded bh r \<Longrightarrow>
   \<not> (bh < lastValid \<and> r < maxRetries)"
proof (induction c lastValid maxRetries retry blockHeight s h rule: sendLoop.induct)
  case (1 c lastValid maxRetries retry blockHeight s h)
  show ?case
  proof (cases "blockHeight < lastValid \<and> retry < maxRetries")
    case False
    then show ?thesis using "1.prems" sendLoop_stop [OF False] by auto
  next
    case True
    obtain p caught where lp: "loop_pass c retry s h = (p, caught)"
      by (cases "loop_pass c retry s h") auto
    show ?thesis
    proof (cases p)
      case (Leave ex)
      then have eq: "sendLoop c lastValid maxRetries retry blockHeight s h = (ex, caught)"
        using True lp sendLoop_leave by blast
      then have "p = Leave (LoopEnded bh r)" using "1.prems" Leave by simp
      then show ?thesis
        using lp by (auto simp: loop_pass_def handler_def split: sum.splits if_splits)
    next
      case (Continue r' b s' h')
      let ?rest = "sendLoop c lastValid maxRetries r' b s' h'"
      have eq: "sendLoop c lastValid maxRetries retry blockHeight s h = (fst ?rest, caught @ snd ?rest)"
        using True lp Continue sendLoop_continue by blast
      then have "fst ?rest = LoopEnded bh r" using "1.prems" by simp
      then show ?thesis
        using "1.IH" [OF True lp [symmetric] Continue] by blast
    qed
  qed
qed

lemma sendLoop_early:
  "fst (sendLoop c lastValid maxRetries retry blockHeight s h) = EarlyReturn \<Longrightarrow>
   snd (sendLoop c lastValid maxRetries retry blockHeight s h) \<noteq> [] \<and>
   message_includes (last (snd (sendLoop c lastValid maxRetries retry blockHeight s h)))
     ALREADY_PROCESSED"
proof (induction c lastValid maxRetries retry blockHeight s h rule: sendLoop.induct)
  case (1 c lastValid maxRetries retry blockHeight s h)
  show ?case
  proof (cases "blockHeight < lastValid \<and> retry < maxRetries")
    case False
    then show ?thesis using "1.prems" sendLoop_stop [OF False] by auto
  next
    case True
    obtain p caught where lp: "loop_pass c retry s h = (p, caught)"
      by (cases "loop_pass c retry s h") auto
    show ?thesis
    proof (cases p)
      case (Leave ex)
      then have eq: "sendLoop c lastValid maxRetries retry blockHeight s h = (ex, caught)"
        using True lp sendLoop_leave by blast
      then have "ex = EarlyReturn" using "1.prems" by simp
      then show ?thesis
        using lp Leave eq loop_pass_early by simp
    next
      case (Continue r' b s' h')
      let ?rest = "sendLoop c lastValid maxRetries r' b s' h'"
      have eq: "sendLoop c lastValid maxRetries retry blockHeight s h = (fst ?rest, caught @ snd ?rest)"
        using True lp Continue sendLoop_continue by blast
      then have "fst ?rest = EarlyReturn" using "1.prems" by simp
      then have "snd ?rest \<noteq> [] \<and> message_includes (last (snd ?rest)) ALREADY_PROCESSED"
        using "1.IH" [OF True lp [symmetric] Continue] by blast
      then show ?thesis using eq by simp
    qed
  qed
qed

text \<open>
  C8. The sending loop returns without raising whenever the handler of the loop catches
  a response saying that the transaction has already been processed. It raises the
  block-height-exceeded error exactly when the loop is left because its condition fails
  with the last observed block height at or above the last valid block height; then no
  already-processed response was caught. A loop left by its condition below that height
  has used up its retries, and the call returns. The loop is left by its \<^verbatim>\<open>return\<close>
  only on an already-processed response.
\<close>

theorem C8_send_loop:
  "((\<exists>e \<in> set (caught_errors (sendTransactionWithRetry c lastValid options)).
        message_includes e ALREADY_PROCESSED) \<longrightarrow>
      outcome (sendTransactionWithRetry c lastValid options) = Returned) \<and>
   ((outcome (sendTransactionWithRetry c lastValid options) = RaisedBlockHeightExceeded) =
      (\<exists>bh r. loop_left (sendTransactionWithRetry c lastValid options) = Some (LoopEnded bh r)
           \<and> lastValid \<le> bh)) \<and>
   (outcome (sendTransactionWithRetry c lastValid options) = RaisedBlockHeightExceeded \<longrightarrow>
      \<not> (\<exists>e \<in> set (caught_errors (sendTransactionWithRetry c lastValid options)).
            message_includes e ALREADY_PROCESSED)) \<and>
   (\<forall>bh r. loop_left (sendTransactionWithRetry c lastValid options) = Some (LoopEnded bh r)
        \<and> bh < lastValid \<longrightarrow>
      outcome (sendTransactionWithRetry c lastValid options) = Returned \<and>
      (case options of
         None \<Rightarrow> MAX_SAFE_INTEGER
       | Some opts \<Rightarrow>
           (case maxSendTransactionRetries opts of None \<Rightarrow> MAX_SAFE_INTEGER | Some m \<Rightarrow> m)) \<le> r) \<and>
   (loop_left (sendTransactionWithRetry c lastValid options) = Some EarlyReturn \<longrightarrow>
      caught_errors (sendTransactionWithRetry c lastValid options) \<noteq> [] \<and>
      message_includes (last (caught_errors (sendTransactionWithRetry c lastValid options)))
        ALREADY_PROCESSED)"
proof (cases "getBlockHeight c 0")
  case (Inl e)
  then show ?thesis by (simp add: sendTransactionWithRetry_def)
next
  case (Inr blockHeight)
  define maxRetries where "maxRetries =
    (case options of
       None \<Rightarrow> MAX_SAFE_INTEGER
     | Some opts \<Rightarrow>
         (case maxSendTransactionRetries opts of None \<Rightarrow> MAX_SAFE_INTEGER | Some m \<Rightarrow> m))"
  define r where "r = sendLoop c lastValid maxRetries 0 blockHeight 0 1"
  define res where "res = sendTransactionWithRetry c lastValid options"
  have o: "outcome res =
        (case fst r of
           EarlyReturn \<Rightarrow> Returned
         | Thrown e \<Rightarrow> Rethrown e
         | LoopEnded finalHeight finalRetry \<Rightarrow>
             if finalHeight \<ge> lastValid then RaisedBlockHeightExceeded else Returned)"
    and l: "loop_left res = Some (fst r)"
    and ce: "caught_errors res = snd r"
    using Inr by (simp_all add: res_def sendTransactionWithRetry_def Let_def r_def maxRetries_def)
  have a: "(\<exists>e \<in> set (caught_errors res). message_includes e ALREADY_PROCESSED) \<longrightarrow>
      outcome res = Returned"
    using sendLoop_already [of _ c lastValid maxRetries 0 blockHeight 0 1]
    unfolding o ce r_def by auto
  have b: "(outcome res = RaisedBlockHeightExceeded) =
      (\<exists>bh r. loop_left res = Some (LoopEnded bh r) \<and> lastValid \<le> bh)"
    unfolding o l by (cases "fst r") auto
  have c: "outcome res = RaisedBlockHeightExceeded \<longrightarrow>
      \<not> (\<exists>e \<in> set (caught_errors res). message_includes e ALREADY_PROCESSED)"
    using a by auto
  have d: "\<forall>bh r. loop_left res = Some (LoopEnded bh r) \<and> bh < lastValid \<longrightarrow>
      outcome res = Returned \<and> maxRetries \<le> r"
    using sendLoop_ended [of c lastValid maxRetries 0 blockHeight 0 1]
    unfolding o l r_def by auto
  have e: "loop_left res = Some EarlyReturn \<longrightarrow>
      caught_errors res \<noteq> [] \<and> message_includes (last (caught_errors res)) ALREADY_PROCESSED"
    using sendLoop_early [of c lastValid maxRetries 0 blockHeight 0 1]
    unfolding l ce r_def by auto
  show ?thesis
    using a b c d e unfolding res_def maxRetries_def by (intro conjI)
qed

theorem C8_send_loop_witness:
  "sendTransactionWithRetry
     \<lparr>getBlockHeight = (\<lambda>k. Inr (10 + k)),
      sendRawTransaction = (\<lambda>k. if k < 2 then Inl (Error (Some ''Blockhash not found''))
         else Inl (Error (Some ''failed: This transaction has already been processed'')))\<rparr>
     15 (Some \<lparr>enablePriorityFee = None, sendTransactionInterval = None,
                maxSendTransactionRetries = Some 5, priorityLevel = None,
                maxPriorityFeeSol = None, exactPriorityFeeSol = None\<rparr>)
   = \<lparr>outcome = Returned, loop_left = Some EarlyReturn,
      caught_errors = [Error (Some ''Blockhash not found''), Error (Some ''Blockhash not found''),
                       Error (Some ''failed: This transaction has already been processed'')]\<rparr> \<and>
   sendTransactionWithRetry
     \<lparr>getBlockHeight = (\<lambda>k. Inr (10 + 3 * k)), sendRawTransaction = (\<lambda>k. Inr ''sent'')\<rparr>
     15 (Some \<lparr>enablePriorityFee = None, sendTransactionInterval = None,
                maxSendTransactionRetries = Some 5, priorityLevel = None,
                maxPriorityFeeSol = None, exactPriorityFeeSol = None\<rparr>)
   = \<lparr>outcome = RaisedBlockHeightExceeded, loop_left = Some (LoopEnded 16 2), caught_errors = []\<rparr> \<and>
   sendTransactionWithRetry
     \<lparr>getBlockHeight = (\<lambda>k. Inr 10), sendRawTransaction = (\<lambda>k. Inr ''sent'')\<rparr>
     15 (Some \<lparr>enablePriorityFee = None, sendTransactionInterval = None,
                maxSendTransactionRetries = Some 5, priorityLevel = None,
                maxPriorityFeeSol = None, exactPriorityFeeSol = None\<rparr>)
   = \<lparr>outcome = Returned, loop_left = Some (LoopEnded 10 5), caught_errors = []\<rparr> \<and>
   message_includes (Error (Some ''failed: This transaction has already been processed''))
     ALREADY_PROCESSED"
proof -
  have a: "sendTransactionWithRetry
     \<lparr>getBlockHeight = (\<lambda>k. Inr (10 + k)),
      sendRawTransaction = (\<lambda>k. if k < 2 then Inl (Error (Some ''Blockhash not found''))
         else Inl (Error (Some ''failed: This transaction has already been processed'')))\<rparr>
     15 (Some \<lparr>enablePriorityFee = None, sendTransactionInterval = None,
                maxSendTransactionRetries = Some 5, priorityLevel = None,
                maxPriorityFeeSol = None, exactPriorityFeeSol = None\<rparr>)
   = \<lparr>outcome = Returned, loop_left = Some EarlyReturn,
      caught_errors = [Error (Some ''Blockhash not found''), Error (Some ''Blockhash not found''),
                       Error (Some ''failed: This transaction has already been processed'')]\<rparr>"
    by code_simp
  have b: "sendTransactionWithRetry
     \<lparr>getBlockHeight = (\<lambda>k. Inr (10 + 3 * k)), sendRawTransaction = (\<lambda>k. Inr ''sent'')\<rparr>
     15 (Some \<lparr>enablePriorityFee = None, sendTransactionInterval = None,
                maxSendTransactionRetries = Some 5, priorityLevel = None,
                maxPriorityFeeSol = None, exactPriorityFeeSol = None\<rparr>)
   = \<lparr>outcome = RaisedBlockHeightExceeded, loop_left = Some (LoopEnded 16 2), caught_errors = []\<rparr>"
    by code_simp
  have c: "sendTransactionWithRetry
     \<lparr>getBlockHeight = (\<lambda>k. Inr 10), sendRawTransaction = (\<lambda>k. Inr ''sent'')\<rparr>
     15 (Some \<lparr>enablePriorityFee = None, sendTransactionInterval = None,
                maxSendTransactionRetries = Some 5, priorityLevel = None,
                maxPriorityFeeSol = None, exactPriorityFeeSol = None\<rparr>)
   = \<lparr>outcome = Returned, loop_left = Some (LoopEnded 10 5), caught_errors = []\<rparr>"
    by code_simp
  have m: "message_includes (Error (Some ''failed: This transaction has already been processed''))
     ALREADY_PROCESSED"
    by code_simp
  show ?thesis
    using C8_send_loop [of "\<lparr>getBlockHeight = (\<lambda>k. Inr (10 + k)),
      sendRawTransaction = (\<lambda>k. if k < 2 then Inl (Error (Some ''Blockhash not found''))
         else Inl (Error (Some ''failed: This transaction has already been processed'')))\<rparr>" 15
         "(Some \<lparr>enablePriorityFee = None, sendTransactionInterval = None,
                maxSendTransactionRetries = Some 5, priorityLevel = None,
                maxPriorityFeeSol = None, exactPriorityFeeSol = None\<rparr>)"]
      a b c m by simp
qed

section \<open>Properties of the batch payload\<close>

lemma inject_prefix:
  assumes "addPriorityFeeInstructions conn ixs cu options = (None, out)"
  shows "\<exists>pre. out = pre @ ixs \<and> length pre \<le> 2"
proof -
  obtain hl hp f where
    out: "out = (if hp then [] else [setComputeUnitPrice f]) @
                (if hl then [] else [setComputeUnitLimit cu]) @ ixs"
    using inject_cases [OF assms] by blast
  have "out = ((if hp then [] else [setComputeUnitPrice f]) @
               (if hl then [] else [setComputeUnitLimit cu])) @ ixs"
    using out by simp
  moreover have "length ((if hp then [] else [setComputeUnitPrice f]) @
               (if hl then [] else [setComputeUnitLimit cu])) \<le> 2"
    by simp
  ultimately show ?thesis by blast
qed

lemma length_inject_all: "length (snd (inject_all conn sims options k tds)) = length tds"
  by (induction tds arbitrary: k) (auto simp: Let_def)

lemma inject_all_nth:
  "fst (inject_all conn sims options k tds) = None \<Longrightarrow> i < length tds \<Longrightarrow>
   \<exists>pre. snd (inject_all conn sims options k tds) ! i
          = (tds ! i)\<lparr>instructions := pre @ instructions (tds ! i)\<rparr> \<and> length pre \<le> 2"
proof (induction tds arbitrary: k i)
  case Nil
  then show ?case by simp
next
  case (Cons d ds)
  let ?r = "addPriorityFeeInstructions conn (instructions d) (computeUnit_of sims k) options"
  let ?rest = "inject_all conn sims options (Suc k) ds"
  have r: "fst ?r = None" and rest: "fst ?rest = None"
    using Cons.prems(1) by (auto simp: Let_def split: option.splits)
  show ?case
  proof (cases i)
    case 0
    have "?r = (None, snd ?r)" using r by (metis prod.collapse)
    then obtain pre where "snd ?r = pre @ instructions d" "length pre \<le> 2"
      using inject_prefix by blast
    then show ?thesis using 0 by (auto simp: Let_def)
  next
    case (Suc j)
    then have "j < length ds" using Cons.prems(2) by simp
    then show ?thesis
      using Cons.IH [OF rest] Suc by (auto simp: Let_def)
  qed
qed

text \<open>What a returning \<^verbatim>\<open>execute\<close> has done.\<close>

lemma execute_returns_shape:
  assumes "returned (execute rt p options finish sac) = Inr outs"
  shows "\<exists>signAll latest signed tds'.
           p_signAllTransactions p = Some signAll \<and>
           requests_after (execute rt p options finish sac) = tds' \<and>
           signAll (buildVersionTransactions tds' (blockhash latest)) = Inr signed \<and>
           length signed = length tds' \<and>
           broadcast (execute rt p options finish sac) = signed \<and>
           outs = map (\<lambda>i. \<lparr>settled = settle rt (p_errors p) sac latest i (signed ! i),
                             item_transactionData = tds' ! i,
                             item_transaction = buildVersionTransactions tds' (blockhash latest) ! i\<rparr>)
                      [0..<length signed] \<and>
           (tds' = transactionsData p \<or>
            (\<exists>sims. inject_all (p_connection p) sims options 0 (transactionsData p) = (None, tds'))) \<and>
           ((case options of
               None \<Rightarrow> True
             | Some opts \<Rightarrow> (case enablePriorityFee opts of None \<Rightarrow> True | Some b \<Rightarrow> b)) \<or>
            tds' = transactionsData p)"
proof -
  obtain signAll where sg: "p_signAllTransactions p = Some signAll"
    using assms by (cases "p_signAllTransactions p") (auto simp: execute_def)
  define enabled where "enabled =
    (case options of
       None \<Rightarrow> True
     | Some opts \<Rightarrow> (case enablePriorityFee opts of None \<Rightarrow> True | Some b \<Rightarrow> b))"
  define injected where "injected =
    (if enabled
     then (case simulate rt p 0 True finish of
             Inl e \<Rightarrow> (Some e, transactionsData p)
           | Inr simulationResults \<Rightarrow>
               inject_all (p_connection p) simulationResults options 0 (transactionsData p))
     else (None, transactionsData p))"
  define after where "after =
    (case getLatestBlockhash (p_connection p) (if enabled then 1 else 0) of
        Inl e \<Rightarrow> \<lparr>returned = Inl e, requests_after = snd injected, broadcast = []\<rparr>
      | Inr latest \<Rightarrow>
     (let transactions = buildVersionTransactions (snd injected) (blockhash latest)
      in case signAll transactions of
        Inl e \<Rightarrow> \<lparr>returned = Inl e, requests_after = snd injected, broadcast = []\<rparr>
      | Inr signedTransactions \<Rightarrow>
     (let results = map (\<lambda>i. settle rt (p_errors p) sac latest i (signedTransactions ! i))
                        [0..<length signedTransactions]
      in if length results \<noteq> length (snd injected)
         then \<lparr>returned = Inl (AssertionError ''Results length mismatch''),
               requests_after = snd injected, broadcast = signedTransactions\<rparr>
         else if length results \<noteq> length transactions
         then \<lparr>returned = Inl (AssertionError ''Results length mismatch''),
               requests_after = snd injected, broadcast = signedTransactions\<rparr>
         else
           \<lparr>returned =
              Inr (map (\<lambda>i. \<lparr>settled = results ! i,
                               item_transactionData = snd injected ! i,
                               item_transaction = transactions ! i\<rparr>)
                       [0..<length results]),
            requests_after = snd injected, broadcast = signedTransactions\<rparr>)))"
  have ex: "execute rt p options finish sac =
      (case fst injected of
         Some e \<Rightarrow> \<lparr>returned = Inl e, requests_after = snd injected, broadcast = []\<rparr>
       | None \<Rightarrow> after)"
    unfolding execute_def after_def injected_def enabled_def using sg by (simp add: Let_def)
  have fi: "fst injected = None"
    using assms ex by (cases "fst injected") auto
  then have ea: "execute rt p options finish sac = after" using ex by simp
  obtain latest where gl: "getLatestBlockhash (p_connection p) (if enabled then 1 else 0) = Inr latest"
    using assms ea unfolding after_def
    by (cases "getLatestBlockhash (p_connection p) (if enabled then 1 else 0)") auto
  obtain signed where sa: "signAll (buildVersionTransactions (snd injected) (blockhash latest)) = Inr signed"
    using assms ea gl unfolding after_def
    by (cases "signAll (buildVersionTransactions (snd injected) (blockhash latest))")
       (auto simp: Let_def)
  have len: "length signed = length (snd injected)"
    using assms ea gl sa unfolding after_def by (auto simp: Let_def split: if_splits)
  have af: "after =
      \<lparr>returned =
         Inr (map (\<lambda>i. \<lparr>settled = settle rt (p_errors p) sac latest i (signed ! i),
                          item_transactionData = snd injected ! i,
                          item_transaction = buildVersionTransactions (snd injected) (blockhash latest) ! i\<rparr>)
                  [0..<length signed]),
       requests_after = snd injected, broadcast = signed\<rparr>"
    using gl sa len unfolding after_def
    by (simp add: Let_def buildVersionTransactions_def cong: map_cong)
  have origin: "snd injected = transactionsData p \<or>
      (\<exists>sims. inject_all (p_connection p) sims options 0 (transactionsData p) = (None, snd injected))"
  proof (cases enabled)
    case False
    then show ?thesis by (simp add: injected_def)
  next
    case True
    show ?thesis
    proof (cases "simulate rt p 0 True finish")
      case (Inl e)
      then show ?thesis using fi True by (simp add: injected_def)
    next
      case (Inr sims)
      then have "injected = inject_all (p_connection p) sims options 0 (transactionsData p)"
        using True by (simp add: injected_def)
      then have "inject_all (p_connection p) sims options 0 (transactionsData p) = (None, snd injected)"
        using fi by (metis prod.collapse)
      then show ?thesis by blast
    qed
  qed
  have o: "outs = map (\<lambda>i. \<lparr>settled = settle rt (p_errors p) sac latest i (signed ! i),
                          item_transactionData = snd injected ! i,
                          item_transaction = buildVersionTransactions (snd injected) (blockhash latest) ! i\<rparr>)
                  [0..<length signed]"
    using assms ea af by simp
  have ra: "requests_after (execute rt p options finish sac) = snd injected"
    and br: "broadcast (execute rt p options finish sac) = signed"
    using ea af by simp_all
  have dis: "(case options of
               None \<Rightarrow> True
             | Some opts \<Rightarrow> (case enablePriorityFee opts of None \<Rightarrow> True | Some b \<Rightarrow> b)) \<or>
            snd injected = transactionsData p"
    unfolding injected_def enabled_def by simp
  show ?thesis
    using sg ra sa len br o origin dis by blast
qed

lemma nth_buildVersionTransactions:
  "i < length tds \<Longrightarrow>
   message_instructions (buildVersionTransactions tds bh ! i) = instructions (tds ! i) \<and>
   payerKey (buildVersionTransactions tds bh ! i) = feePayer (tds ! i) \<and>
   recentBlockhash (buildVersionTransactions tds bh ! i) = bh"
  by (simp add: buildVersionTransactions_def newVersionedTransaction_def sign_with_def Let_def)

text \<open>
  C1. When a batch execution returns, the outcome sequence has as many elements as the
  batch has requests, and so has the sequence of transactions handed to the send stage.
  The \<open>i\<close>-th outcome carries the \<open>i\<close>-th request of the payload (the request as the
  execution leaves it: the given request with at most two budget instructions put in front
  of its instructions, and the given request itself when the priority fee is disabled) and
  the \<open>i\<close>-th compiled transaction, which is the one built from that request. This holds
  for every outcome of sending and confirming.
\<close>

theorem C1_batch_outcomes_aligned:
  assumes "returned (execute rt p options finish sac) = Inr outs"
  shows "length outs = length (transactionsData p) \<and>
         length (requests_after (execute rt p options finish sac)) = length (transactionsData p) \<and>
         length (broadcast (execute rt p options finish sac)) = length (transactionsData p) \<and>
         (\<forall>i < length outs.
            item_transactionData (outs ! i) = requests_after (execute rt p options finish sac) ! i \<and>
            (\<exists>pre. item_transactionData (outs ! i)
                     = (transactionsData p ! i)\<lparr>instructions := pre @ instructions (transactionsData p ! i)\<rparr>
                   \<and> length pre \<le> 2) \<and>
            (\<exists>bh. item_transaction (outs ! i)
                    = buildVersionTransactions (requests_after (execute rt p options finish sac)) bh ! i) \<and>
            message_instructions (item_transaction (outs ! i))
              = instructions (item_transactionData (outs ! i)) \<and>
            payerKey (item_transaction (outs ! i)) = feePayer (transactionsData p ! i)) \<and>
         ((case options of
             None \<Rightarrow> True
           | Some opts \<Rightarrow> (case enablePriorityFee opts of None \<Rightarrow> True | Some b \<Rightarrow> b)) \<or>
          map item_transactionData outs = transactionsData p)"
proof -
  obtain signAll latest signed tds' where
    ra: "requests_after (execute rt p options finish sac) = tds'" and
    len: "length signed = length tds'" and
    br: "broadcast (execute rt p options finish sac) = signed" and
    o: "outs = map (\<lambda>i. \<lparr>settled = settle rt (p_errors p) sac latest i (signed ! i),
                          item_transactionData = tds' ! i,
                          item_transaction = buildVersionTransactions tds' (blockhash latest) ! i\<rparr>)
                   [0..<length signed]" and
    origin: "tds' = transactionsData p \<or>
       (\<exists>sims. inject_all (p_connection p) sims options 0 (transactionsData p) = (None, tds'))" and
    dis: "(case options of
             None \<Rightarrow> True
           | Some opts \<Rightarrow> (case enablePriorityFee opts of None \<Rightarrow> True | Some b \<Rightarrow> b)) \<or>
          tds' = transactionsData p"
    using execute_returns_shape [OF assms] by blast
  have lo: "length outs = length tds'" using o len by simp
  have lt: "length tds' = length (transactionsData p)"
    using origin length_inject_all [of "p_connection p" _ options 0 "transactionsData p"]
    by (metis snd_conv)
  have pre: "\<exists>pre. tds' ! i = (transactionsData p ! i)\<lparr>instructions := pre @ instructions (transactionsData p ! i)\<rparr>
                  \<and> length pre \<le> 2" if "i < length tds'" for i
  proof -
    from origin show ?thesis
    proof
      assume "tds' = transactionsData p"
      then have "tds' ! i = (transactionsData p ! i)\<lparr>instructions := [] @ instructions (transactionsData p ! i)\<rparr>"
        by simp
      then show ?thesis by (metis list.size(3) zero_le)
    next
      assume "\<exists>sims. inject_all (p_connection p) sims options 0 (transactionsData p) = (None, tds')"
      then obtain sims where
        ia: "inject_all (p_connection p) sims options 0 (transactionsData p) = (None, tds')"
        by blast
      have "i < length (transactionsData p)" using that lt by simp
      then show ?thesis
        using inject_all_nth [of "p_connection p" sims options 0 "transactionsData p" i] ia
        by simp
    qed
  qed
  have each: "item_transactionData (outs ! i) = tds' ! i \<and>
      (\<exists>pre. item_transactionData (outs ! i)
               = (transactionsData p ! i)\<lparr>instructions := pre @ instructions (transactionsData p ! i)\<rparr>
             \<and> length pre \<le> 2) \<and>
      (\<exists>bh. item_transaction (outs ! i) = buildVersionTransactions tds' bh ! i) \<and>
      message_instructions (item_transaction (outs ! i)) = instructions (item_transactionData (outs ! i)) \<and>
      payerKey (item_transaction (outs ! i)) = feePayer (transactionsData p ! i)"
    if "i < length outs" for i
  proof -
    have i: "i < length tds'" "i < length signed" using that lo len by simp_all
    have a: "item_transactionData (outs ! i) = tds' ! i"
      and b: "item_transaction (outs ! i) = buildVersionTransactions tds' (blockhash latest) ! i"
      using o i by simp_all
    obtain pr where pr: "tds' ! i = (transactionsData p ! i)\<lparr>instructions := pr @ instructions (transactionsData p ! i)\<rparr>"
        "length pr \<le> 2"
      using pre [OF i(1)] by blast
    have c: "message_instructions (item_transaction (outs ! i)) = instructions (tds' ! i)"
      and d: "payerKey (item_transaction (outs ! i)) = feePayer (tds' ! i)"
      using b nth_buildVersionTransactions [OF i(1)] by simp_all
    have e: "feePayer (tds' ! i) = feePayer (transactionsData p ! i)" using pr(1) by simp
    show ?thesis using a b c d e pr by auto
  qed
  have m: "map item_transactionData outs = tds'"
    using o len by (simp add: o comp_def map_nth)
  have A: "length outs = length (transactionsData p)" using lo lt by simp
  have B: "length (requests_after (execute rt p options finish sac)) = length (transactionsData p)"
    using ra lt by simp
  have C: "length (broadcast (execute rt p options finish sac)) = length (transactionsData p)"
    using br len lt by simp
  have D: "\<forall>i < length outs.
            item_transactionData (outs ! i) = requests_after (execute rt p options finish sac) ! i \<and>
            (\<exists>pre. item_transactionData (outs ! i)
                     = (transactionsData p ! i)\<lparr>instructions := pre @ instructions (transactionsData p ! i)\<rparr>
                   \<and> length pre \<le> 2) \<and>
            (\<exists>bh. item_transaction (outs ! i)
                    = buildVersionTransactions (requests_after (execute rt p options finish sac)) bh ! i) \<and>
            message_instructions (item_transaction (outs ! i))
              = instructions (item_transactionData (outs ! i)) \<and>
            payerKey (item_transaction (outs ! i)) = feePayer (transactionsData p ! i)"
    unfolding ra by (intro allI impI, rule each, assumption)
  have E: "(case options of
             None \<Rightarrow> True
           | Some opts \<Rightarrow> (case enablePriorityFee opts of None \<Rightarrow> True | Some b \<Rightarrow> b)) \<or>
          map item_transactionData outs = transactionsData p"
    using dis m by auto
  show ?thesis
    by (rule conjI [OF A conjI [OF B conjI [OF C conjI [OF D E]]]])
qed

theorem C1_batch_outcomes_aligned_witness:
  "returned (execute \<lparr>translateError = (\<lambda>e m. e), JSON_stringify_error = (\<lambda>e. ''error''), JSON_stringify_entries = (\<lambda>es. ''entries'')\<rparr> \<lparr>p_connection = \<lparr>getRecentPrioritizationFees = (\<lambda>a. Inr []), getLatestBlockhash = (\<lambda>k. Inr \<lparr>blockhash = ''h'', lastValidBlockHeight = 9\<rparr>), simulateTransaction = (\<lambda>i t. if i = 1 then Inl (Error (Some ''boom'')) else Inr \<lparr>simulation_err = None, unitsConsumed = None\<rparr>)\<rparr>, p_errors = (\<lambda>n. None), transactionsData = [\<lparr>instructions = [\<lparr>keys = [], programId = ''11111111111111111111111111111111'', data = []\<rparr>], feePayer = Some ''A'', signers = None, addressLookupTableAccounts = None\<rparr>, \<lparr>instructions = [\<lparr>keys = [], programId = ''11111111111111111111111111111111'', data = []\<rparr>], feePayer = Some ''B'', signers = None, addressLookupTableAccounts = None\<rparr>], p_signAllTransactions = Some (\<lambda>txs. Inr (map (sign_with [''sig'']) txs))\<rparr> (Some \<lparr>enablePriorityFee = Some False, sendTransactionInterval = None, maxSendTransactionRetries = None, priorityLevel = None, maxPriorityFeeSol = None, exactPriorityFeeSol = None\<rparr>) (\<lambda>i. 0) (\<lambda>i t sg l. if i = 0 then Inr () else Inl (Error (Some ''timeout''))))
   = Inr [\<lparr>settled = Fulfilled ''sig'', item_transactionData = \<lparr>instructions = [\<lparr>keys = [], programId = ''11111111111111111111111111111111'', data = []\<rparr>], feePayer = Some ''A'', signers = None, addressLookupTableAccounts = None\<rparr>, item_transaction = \<lparr>message_instructions = [\<lparr>keys = [], programId = ''11111111111111111111111111111111'', data = []\<rparr>], payerKey = Some ''A'', recentBlockhash = ''h'', lookupTables = None, signatures = []\<rparr>\<rparr>, \<lparr>settled = Rejected (Error (Some ''timeout'')), item_transactionData = \<lparr>instructions = [\<lparr>keys = [], programId = ''11111111111111111111111111111111'', data = []\<rparr>], feePayer = Some ''B'', signers = None, addressLookupTableAccounts = None\<rparr>, item_transaction = \<lparr>message_instructions = [\<lparr>keys = [], programId = ''11111111111111111111111111111111'', data = []\<rparr>], payerKey = Some ''B'', recentBlockhash = ''h'', lookupTables = None, signatures = []\<rparr>\<rparr>] \<and>
   length [\<lparr>settled = Fulfilled ''sig'', item_transactionData = \<lparr>instructions = [\<lparr>keys = [], programId = ''11111111111111111111111111111111'', data = []\<rparr>], feePayer = Some ''A'', signers = None, addressLookupTableAccounts = None\<rparr>, item_transaction = \<lparr>message_instructions = [\<lparr>keys = [], programId = ''11111111111111111111111111111111'', data = []\<rparr>], payerKey = Some ''A'', recentBlockhash = ''h'', lookupTables = None, signatures = []\<rparr>\<rparr>, \<lparr>settled = Rejected (Error (Some ''timeout'')), item_transactionData = \<lparr>instructions = [\<lparr>keys = [], programId = ''11111111111111111111111111111111'', data = []\<rparr>], feePayer = Some ''B'', signers = None, addressLookupTableAccounts = None\<rparr>, item_transaction = \<lparr>message_instructions = [\<lparr>keys = [], programId = ''11111111111111111111111111111111'', data = []\<rparr>], payerKey = Some ''B'', recentBlockhash = ''h'', lookupTables = None, signatures = []\<rparr>\<rparr>] = length (transactionsData \<lparr>p_connection = \<lparr>getRecentPrioritizationFees = (\<lambda>a. Inr []), getLatestBlockhash = (\<lambda>k. Inr \<lparr>blockhash = ''h'', lastValidBlockHeight = 9\<rparr>), simulateTransaction = (\<lambda>i t. if i = 1 then Inl (Error (Some ''boom'')) else Inr \<lparr>simulation_err = None, unitsConsumed = None\<rparr>)\<rparr>, p_errors = (\<lambda>n. None), transactionsData = [\<lparr>instructions = [\<lparr>keys = [], programId = ''11111111111111111111111111111111'', data = []\<rparr>], feePayer = Some ''A'', signers = None, addressLookupTableAccounts = None\<rparr>, \<lparr>instructions = [\<lparr>keys = [], programId = ''11111111111111111111111111111111'', data = []\<rparr>], feePayer = Some ''B'', signers = None, addressLookupTableAccounts = None\<rparr>], p_signAllTransactions = Some (\<lambda>txs. Inr (map (sign_with [''sig'']) txs))\<rparr>) \<and>
   map item_transactionData [\<lparr>settled = Fulfilled ''sig'', item_transactionData = \<lparr>instructions = [\<lparr>keys = [], programId = ''11111111111111111111111111111111'', data = []\<rparr>], feePayer = Some ''A'', signers = None, addressLookupTableAccounts = None\<rparr>, item_transaction = \<lparr>message_instructions = [\<lparr>keys = [], programId = ''11111111111111111111111111111111'', data = []\<rparr>], payerKey = Some ''A'', recentBlockhash = ''h'', lookupTables = None, signatures = []\<rparr>\<rparr>, \<lparr>settled = Rejected (Error (Some ''timeout'')), item_transactionData = \<lparr>instructions = [\<lparr>keys = [], programId = ''11111111111111111111111111111111'', data = []\<rparr>], feePayer = Some ''B'', signers = None, addressLookupTableAccounts = None\<rparr>, item_transaction = \<lparr>message_instructions = [\<lparr>keys = [], programId = ''11111111111111111111111111111111'', data = []\<rparr>], payerKey = Some ''B'', recentBlockhash = ''h'', lookupTables = None, signatures = []\<rparr>\<rparr>] = transactionsData \<lparr>p_connection = \<lparr>getRecentPrioritizationFees = (\<lambda>a. Inr []), getLatestBlockhash = (\<lambda>k. Inr \<lparr>blockhash = ''h'', lastValidBlockHeight = 9\<rparr>), simulateTransaction = (\<lambda>i t. if i = 1 then Inl (Error (Some ''boom'')) else Inr \<lparr>simulation_err = None, unitsConsumed = None\<rparr>)\<rparr>, p_errors = (\<lambda>n. None), transactionsData = [\<lparr>instructions = [\<lparr>keys = [], programId = ''11111111111111111111111111111111'', data = []\<rparr>], feePayer = Some ''A'', signers = None, addressLookupTableAccounts = None\<rparr>, \<lparr>instructions = [\<lparr>keys = [], programId = ''11111111111111111111111111111111'', data = []\<rparr>], feePayer = Some ''B'', signers = None, addressLookupTableAccounts = None\<rparr>], p_signAllTransactions = Some (\<lambda>txs. Inr (map (sign_with [''sig'']) txs))\<rparr>"
proof -
  have ev: "returned (execute \<lparr>translateError = (\<lambda>e m. e), JSON_stringify_error = (\<lambda>e. ''error''), JSON_stringify_entries = (\<lambda>es. ''entries'')\<rparr> \<lparr>p_connection = \<lparr>getRecentPrioritizationFees = (\<lambda>a. Inr []), getLatestBlockhash = (\<lambda>k. Inr \<lparr>blockhash = ''h'', lastValidBlockHeight = 9\<rparr>), simulateTransaction = (\<lambda>i t. if i = 1 then Inl (Error (Some ''boom'')) else Inr \<lparr>simulation_err = None, unitsConsumed = None\<rparr>)\<rparr>, p_errors = (\<lambda>n. None), transactionsData = [\<lparr>instructions = [\<lparr>keys = [], programId = ''11111111111111111111111111111111'', data = []\<rparr>], feePayer = Some ''A'', signers = None, addressLookupTableAccounts = None\<rparr>, \<lparr>instructions = [\<lparr>keys = [], programId = ''11111111111111111111111111111111'', data = []\<rparr>], feePayer = Some ''B'', signers = None, addressLookupTableAccounts = None\<rparr>], p_signAllTransactions = Some (\<lambda>txs. Inr (map (sign_with [''sig'']) txs))\<rparr> (Some \<lparr>enablePriorityFee = Some False, sendTransactionInterval = None, maxSendTransactionRetries = None, priorityLevel = None, maxPriorityFeeSol = None, exactPriorityFeeSol = None\<rparr>) (\<lambda>i. 0) (\<lambda>i t sg l. if i = 0 then Inr () else Inl (Error (Some ''timeout''))))
   = Inr [\<lparr>settled = Fulfilled ''sig'', item_transactionData = \<lparr>instructions = [\<lparr>keys = [], programId = ''11111111111111111111111111111111'', data = []\<rparr>], feePayer = Some ''A'', signers = None, addressLookupTableAccounts = None\<rparr>, item_transaction = \<lparr>message_instructions = [\<lparr>keys = [], programId = ''11111111111111111111111111111111'', data = []\<rparr>], payerKey = Some ''A'', recentBlockhash = ''h'', lookupTables = None, signatures = []\<rparr>\<rparr>, \<lparr>settled = Rejected (Error (Some ''timeout'')), item_transactionData = \<lparr>instructions = [\<lparr>keys = [], programId = ''11111111111111111111111111111111'', data = []\<rparr>], feePayer = Some ''B'', signers = None, addressLookupTableAccounts = None\<rparr>, item_transaction = \<lparr>message_instructions = [\<lparr>keys = [], programId = ''11111111111111111111111111111111'', data = []\<rparr>], payerKey = Some ''B'', recentBlockhash = ''h'', lookupTables = None, signatures = []\<rparr>\<rparr>]"
    by code_simp
  show ?thesis
    using C1_batch_outcomes_aligned [OF ev] ev by simp
qed

text \<open>
  The lengths agree because \<^verbatim>\<open>execute\<close> asserts it: when the signer returns another
  number of transactions than it was given, the call throws an assertion error instead of
  returning.
\<close>

lemma execute_asserts_length:
  assumes "p_signAllTransactions p = Some signAll"
    and "getLatestBlockhash (p_connection p) 0 = Inr latest"
    and "signAll (buildVersionTransactions (transactionsData p) (blockhash latest)) = Inr signed"
    and "length signed \<noteq> length (transactionsData p)"
    and "options = Some opts" "enablePriorityFee opts = Some False"
  shows "returned (execute rt p options finish sac) = Inl (AssertionError ''Results length mismatch'')"
  using assms by (simp add: execute_def Let_def)

text \<open>
  \<^verbatim>\<open>execute\<close> does return: with a signer that answers with as many transactions as it
  is given and a blockhash that is fetched, when the priority fee is disabled or the
  simulation and the injection succeed.
\<close>

lemma execute_returns:
  assumes "p_signAllTransactions p = Some signAll"
    and "injected =
           (if (case options of
                  None \<Rightarrow> True
                | Some opts \<Rightarrow> (case enablePriorityFee opts of None \<Rightarrow> True | Some b \<Rightarrow> b))
            then (case simulate rt p 0 True finish of
                    Inl e \<Rightarrow> (Some e, transactionsData p)
                  | Inr simulationResults \<Rightarrow>
                      inject_all (p_connection p) simulationResults options 0 (transactionsData p))
            else (None, transactionsData p))"
    and "fst injected = None"
    and "getLatestBlockhash (p_connection p)
           (if (case options of
                  None \<Rightarrow> True
                | Some opts \<Rightarrow> (case enablePriorityFee opts of None \<Rightarrow> True | Some b \<Rightarrow> b))
            then 1 else 0) = Inr latest"
    and "signAll (buildVersionTransactions (snd injected) (blockhash latest)) = Inr signed"
    and "length signed = length (snd injected)"
  shows "\<exists>outs. returned (execute rt p options finish sac) = Inr outs"
  using assms(1,3,4,5,6) unfolding assms(2)
  by (simp add: execute_def Let_def buildVersionTransactions_def)

lemma set_map_filter: "set (List.map_filter g xs) = {y. \<exists>x \<in> set xs. g x = Some y}"
  by (induction xs) (auto simp: List.map_filter_simps split: option.splits)

lemma distinct_fst_map_filter:
  "distinct xs \<Longrightarrow> (\<And>x y. g x = Some y \<Longrightarrow> fst y = x) \<Longrightarrow>
   distinct (map fst (List.map_filter g xs))"
proof (induction xs)
  case Nil
  then show ?case by (simp add: List.map_filter_simps)
next
  case (Cons a xs)
  have ih: "distinct (map fst (List.map_filter g xs))" using Cons by simp
  show ?case
  proof (cases "g a")
    case None
    then show ?thesis using ih by (simp add: List.map_filter_simps)
  next
    case (Some y)
    have "a \<notin> fst ` set (List.map_filter g xs)"
    proof
      assume "a \<in> fst ` set (List.map_filter g xs)"
      then obtain z where "z \<in> set (List.map_filter g xs)" "fst z = a" by auto
      then obtain x where "x \<in> set xs" "g x = Some z" by (auto simp: set_map_filter)
      then have "x = a" using Cons.prems(2) \<open>fst z = a\<close> by auto
      then show False using Cons.prems(1) \<open>x \<in> set xs\<close> by simp
    qed
    then show ?thesis using ih Some Cons.prems(2) by (simp add: List.map_filter_simps)
  qed
qed

text \<open>
  When the simulations are reached and one of them throws, \<^verbatim>\<open>simulate\<close> throws the
  aggregate error; its entries are the failing indices, once each, with their translated
  errors.
\<close>

lemma simulate_aggregate:
  assumes gl: "getLatestBlockhash (p_connection p) k = Inr latest"
    and sg: "p_signAllTransactions p = Some signAll"
    and sa: "signAll (buildVersionTransactions (transactionsData p) (blockhash latest)) = Inr signed"
    and i: "i < length signed"
    and f: "simulateTransaction (p_connection p) i (signed ! i) = Inl e"
  shows "\<exists>errs. simulate rt p k True finish
                 = Inl (MultiTransactionSimulationError (simulation_message rt errs) errs) \<and>
               set errs = {(j, translateError rt x (p_errors p)) | j x.
                            j < length signed \<and>
                            simulateTransaction (p_connection p) j (signed ! j) = Inl x} \<and>
               distinct (map fst errs)"
proof -
  define g where "g = (\<lambda>i. case simulateTransaction (p_connection p) i (signed ! i) of
                      Inl error \<Rightarrow> Some (i, translateError rt error (p_errors p))
                    | Inr r \<Rightarrow> None)"
  define errs where "errs = List.map_filter g (sort_key finish [0..<length signed])"
  have s: "set errs = {(j, translateError rt x (p_errors p)) | j x.
                            j < length signed \<and>
                            simulateTransaction (p_connection p) j (signed ! j) = Inl x}"
  proof -
    have gs: "(g j = Some y) =
        (\<exists>x. simulateTransaction (p_connection p) j (signed ! j) = Inl x \<and>
             y = (j, translateError rt x (p_errors p)))" for j y
      unfolding g_def
      by (cases "simulateTransaction (p_connection p) j (signed ! j)") auto
    show ?thesis
      unfolding errs_def set_map_filter by (auto simp: gs)
  qed
  have "(i, translateError rt e (p_errors p)) \<in> set errs" using s i f by blast
  then have ne: "length errs \<noteq> 0" by auto
  have d: "distinct (map fst errs)"
    unfolding errs_def
    by (rule distinct_fst_map_filter) (auto simp: g_def split: sum.splits)
  have "simulate rt p k True finish
        = Inl (MultiTransactionSimulationError (simulation_message rt errs) errs)"
    using gl sg sa ne unfolding errs_def g_def
    by (simp add: simulate_def Let_def buildVersionTransactions_def)
  then show ?thesis using s d by blast
qed

lemma map_filter_all_None: "\<forall>x \<in> set xs. g x = None \<Longrightarrow> List.map_filter g xs = []"
  by (induction xs) (auto simp: List.map_filter_simps)

lemma map_filter_all_Some:
  "\<forall>x \<in> set xs. g x = Some (h x) \<Longrightarrow> List.map_filter (\<lambda>y. y) (map g xs) = map h xs"
  by (induction xs) (auto simp: List.map_filter_simps)

text \<open>
  When the simulations are reached and every call returns a response, \<^verbatim>\<open>simulate\<close>
  returns the responses by index, whatever their \<^verbatim>\<open>err\<close> fields hold: the field is
  not read.
\<close>

lemma simulate_returns:
  assumes gl: "getLatestBlockhash (p_connection p) k = Inr latest"
    and sg: "p_signAllTransactions p = Some signAll"
    and sa: "signAll (buildVersionTransactions (transactionsData p) (blockhash latest)) = Inr signed"
    and r: "\<forall>i < length signed. \<exists>r. simulateTransaction (p_connection p) i (signed ! i) = Inr r"
  shows "simulate rt p k True finish
         = Inr (map (\<lambda>i. (i, projr (simulateTransaction (p_connection p) i (signed ! i))))
                    [0..<length signed])"
proof -
  define g where "g = (\<lambda>i. case simulateTransaction (p_connection p) i (signed ! i) of
                      Inl error \<Rightarrow> Some (i, translateError rt error (p_errors p))
                    | Inr r \<Rightarrow> None)"
  define f where "f = (\<lambda>i. case simulateTransaction (p_connection p) i (signed ! i) of
                        Inl error \<Rightarrow> None
                      | Inr r \<Rightarrow> Some (i, r))"
  have "\<forall>i \<in> set (sort_key finish [0..<length signed]). g i = None"
    using r by (auto simp: g_def)
  then have e: "List.map_filter g (sort_key finish [0..<length signed]) = []"
    by (rule map_filter_all_None)
  have "\<forall>i \<in> set [0..<length signed].
          f i = Some (i, projr (simulateTransaction (p_connection p) i (signed ! i)))"
    using r by (auto simp: f_def)
  then have s: "List.map_filter (\<lambda>y. y) (map f [0..<length signed])
      = map (\<lambda>i. (i, projr (simulateTransaction (p_connection p) i (signed ! i)))) [0..<length signed]"
    by (rule map_filter_all_Some)
  show ?thesis
    using gl sg sa e s unfolding g_def f_def
    by (simp add: simulate_def Let_def buildVersionTransactions_def)
qed

text \<open>
  C2, as the code has it. In a batch execution that reaches the simulations (a signer is
  present, the priority fee is enabled, the blockhash is fetched and the signer returns the
  transactions): when at least one simulation call throws, the execution throws one
  aggregate error whose entries are exactly the indices of the throwing calls, once each,
  with their translated errors; no transaction is handed to the send stage and the
  requests are unchanged. When every simulation call returns a response, the simulation
  step returns the responses and raises nothing, whatever execution errors the responses
  report.
\<close>

theorem C2_thrown_simulation_aborts_batch:
  assumes sg: "p_signAllTransactions p = Some signAll"
    and en: "case options of
               None \<Rightarrow> True
             | Some opts \<Rightarrow> (case enablePriorityFee opts of None \<Rightarrow> True | Some b \<Rightarrow> b)"
    and gl: "getLatestBlockhash (p_connection p) 0 = Inr latest"
    and sa: "signAll (buildVersionTransactions (transactionsData p) (blockhash latest)) = Inr signed"
  shows "((\<exists>i < length signed. \<exists>e. simulateTransaction (p_connection p) i (signed ! i) = Inl e) \<longrightarrow>
          (\<exists>errs. returned (execute rt p options finish sac)
                   = Inl (MultiTransactionSimulationError (simulation_message rt errs) errs) \<and>
                 set errs = {(j, translateError rt x (p_errors p)) | j x.
                        j < length signed \<and>
                        simulateTransaction (p_connection p) j (signed ! j) = Inl x} \<and>
                 distinct (map fst errs) \<and>
                 broadcast (execute rt p options finish sac) = [] \<and>
                 requests_after (execute rt p options finish sac) = transactionsData p)) \<and>
         ((\<forall>i < length signed. \<exists>r. simulateTransaction (p_connection p) i (signed ! i) = Inr r) \<longrightarrow>
          simulate rt p 0 True finish
            = Inr (map (\<lambda>i. (i, projr (simulateTransaction (p_connection p) i (signed ! i))))
                       [0..<length signed]))"
proof -
  have a: "(\<exists>i < length signed. \<exists>e. simulateTransaction (p_connection p) i (signed ! i) = Inl e) \<longrightarrow>
          (\<exists>errs. returned (execute rt p options finish sac)
                   = Inl (MultiTransactionSimulationError (simulation_message rt errs) errs) \<and>
                 set errs = {(j, translateError rt x (p_errors p)) | j x.
                        j < length signed \<and>
                        simulateTransaction (p_connection p) j (signed ! j) = Inl x} \<and>
                 distinct (map fst errs) \<and>
                 broadcast (execute rt p options finish sac) = [] \<and>
                 requests_after (execute rt p options finish sac) = transactionsData p)"
  proof
    assume "\<exists>i < length signed. \<exists>e. simulateTransaction (p_connection p) i (signed ! i) = Inl e"
    then obtain i e where i: "i < length signed"
      and f: "simulateTransaction (p_connection p) i (signed ! i) = Inl e"
      by blast
    obtain errs where
      s: "simulate rt p 0 True finish
            = Inl (MultiTransactionSimulationError (simulation_message rt errs) errs)" and
      e: "set errs = {(j, translateError rt x (p_errors p)) | j x.
                        j < length signed \<and>
                        simulateTransaction (p_connection p) j (signed ! j) = Inl x}" and
      d: "distinct (map fst errs)"
      using simulate_aggregate [OF gl sg sa i f] by blast
    have x: "execute rt p options finish sac =
        \<lparr>returned = Inl (MultiTransactionSimulationError (simulation_message rt errs) errs),
         requests_after = transactionsData p, broadcast = []\<rparr>"
      using sg en s by (simp add: execute_def Let_def)
    show "\<exists>errs. returned (execute rt p options finish sac)
                   = Inl (MultiTransactionSimulationError (simulation_message rt errs) errs) \<and>
                 set errs = {(j, translateError rt x (p_errors p)) | j x.
                        j < length signed \<and>
                        simulateTransaction (p_connection p) j (signed ! j) = Inl x} \<and>
                 distinct (map fst errs) \<and>
                 broadcast (execute rt p options finish sac) = [] \<and>
                 requests_after (execute rt p options finish sac) = transactionsData p"
      using x e d by (intro exI [of _ errs]) simp
  qed
  have b: "(\<forall>i < length signed. \<exists>r. simulateTransaction (p_connection p) i (signed ! i) = Inr r) \<longrightarrow>
          simulate rt p 0 True finish
            = Inr (map (\<lambda>i. (i, projr (simulateTransaction (p_connection p) i (signed ! i))))
                       [0..<length signed])"
    using simulate_returns [OF gl sg sa] by (intro impI)
  show ?thesis by (rule conjI [OF a b])
qed

theorem C2_thrown_simulation_aborts_batch_witness:
  "returned (execute \<lparr>translateError = (\<lambda>e m. e), JSON_stringify_error = (\<lambda>e. ''error''), JSON_stringify_entries = (\<lambda>es. ''entries'')\<rparr> \<lparr>p_connection = \<lparr>getRecentPrioritizationFees = (\<lambda>a. Inr []), getLatestBlockhash = (\<lambda>k. Inr \<lparr>blockhash = ''h'', lastValidBlockHeight = 9\<rparr>), simulateTransaction = (\<lambda>i t. if i = 1 then Inl (Error (Some ''boom'')) else Inr \<lparr>simulation_err = None, unitsConsumed = None\<rparr>)\<rparr>, p_errors = (\<lambda>n. None), transactionsData = [\<lparr>instructions = [\<lparr>keys = [], programId = ''11111111111111111111111111111111'', data = []\<rparr>], feePayer = Some ''A'', signers = None, addressLookupTableAccounts = None\<rparr>, \<lparr>instructions = [\<lparr>keys = [], programId = ''11111111111111111111111111111111'', data = []\<rparr>], feePayer = Some ''B'', signers = None, addressLookupTableAccounts = None\<rparr>], p_signAllTransactions = Some (\<lambda>txs. Inr (map (sign_with [''sig'']) txs))\<rparr> None (\<lambda>i. 0) (\<lambda>i t sg l. Inr ()))
   = Inl (MultiTransactionSimulationError (simulation_message \<lparr>translateError = (\<lambda>e m. e), JSON_stringify_error = (\<lambda>e. ''error''), JSON_stringify_entries = (\<lambda>es. ''entries'')\<rparr> [(1, Error (Some ''boom''))]) [(1, Error (Some ''boom''))]) \<and>
   broadcast (execute \<lparr>translateError = (\<lambda>e m. e), JSON_stringify_error = (\<lambda>e. ''error''), JSON_stringify_entries = (\<lambda>es. ''entries'')\<rparr> \<lparr>p_connection = \<lparr>getRecentPrioritizationFees = (\<lambda>a. Inr []), getLatestBlockhash = (\<lambda>k. Inr \<lparr>blockhash = ''h'', lastValidBlockHeight = 9\<rparr>), simulateTransaction = (\<lambda>i t. if i = 1 then Inl (Error (Some ''boom'')) else Inr \<lparr>simulation_err = None, unitsConsumed = None\<rparr>)\<rparr>, p_errors = (\<lambda>n. None), transactionsData = [\<lparr>instructions = [\<lparr>keys = [], programId = ''11111111111111111111111111111111'', data = []\<rparr>], feePayer = Some ''A'', signers = None, addressLookupTableAccounts = None\<rparr>, \<lparr>instructions = [\<lparr>keys = [], programId = ''11111111111111111111111111111111'', data = []\<rparr>], feePayer = Some ''B'', signers = None, addressLookupTableAccounts = None\<rparr>], p_signAllTransactions = Some (\<lambda>txs. Inr (map (sign_with [''sig'']) txs))\<rparr> None (\<lambda>i. 0) (\<lambda>i t sg l. Inr ())) = []"
proof -
  have sg: "p_signAllTransactions \<lparr>p_connection = \<lparr>getRecentPrioritizationFees = (\<lambda>a. Inr []), getLatestBlockhash = (\<lambda>k. Inr \<lparr>blockhash = ''h'', lastValidBlockHeight = 9\<rparr>), simulateTransaction = (\<lambda>i t. if i = 1 then Inl (Error (Some ''boom'')) else Inr \<lparr>simulation_err = None, unitsConsumed = None\<rparr>)\<rparr>, p_errors = (\<lambda>n. None), transactionsData = [\<lparr>instructions = [\<lparr>keys = [], programId = ''11111111111111111111111111111111'', data = []\<rparr>], feePayer = Some ''A'', signers = None, addressLookupTableAccounts = None\<rparr>, \<lparr>instructions = [\<lparr>keys = [], programId = ''11111111111111111111111111111111'', data = []\<rparr>], feePayer = Some ''B'', signers = None, addressLookupTableAccounts = None\<rparr>], p_signAllTransactions = Some (\<lambda>txs. Inr (map (sign_with [''sig'']) txs))\<rparr> = Some (\<lambda>txs. Inr (map (sign_with [''sig'']) txs))"
    by simp
  have en: "case (None :: TransactionExecutionOptions option) of
               None \<Rightarrow> True
             | Some opts \<Rightarrow> (case enablePriorityFee opts of None \<Rightarrow> True | Some b \<Rightarrow> b)"
    by simp
  have gl: "getLatestBlockhash (p_connection \<lparr>p_connection = \<lparr>getRecentPrioritizationFees = (\<lambda>a. Inr []), getLatestBlockhash = (\<lambda>k. Inr \<lparr>blockhash = ''h'', lastValidBlockHeight = 9\<rparr>), simulateTransaction = (\<lambda>i t. if i = 1 then Inl (Error (Some ''boom'')) else Inr \<lparr>simulation_err = None, unitsConsumed = None\<rparr>)\<rparr>, p_errors = (\<lambda>n. None), transactionsData = [\<lparr>instructions = [\<lparr>keys = [], programId = ''11111111111111111111111111111111'', data = []\<rparr>], feePayer = Some ''A'', signers = None, addressLookupTableAccounts = None\<rparr>, \<lparr>instructions = [\<lparr>keys = [], programId = ''11111111111111111111111111111111'', data = []\<rparr>], feePayer = Some ''B'', signers = None, addressLookupTableAccounts = None\<rparr>], p_signAllTransactions = Some (\<lambda>txs. Inr (map (sign_with [''sig'']) txs))\<rparr>) 0 = Inr \<lparr>blockhash = ''h'', lastValidBlockHeight = 9\<rparr>"
    by simp
  have sa: "(\<lambda>txs. Inr (map (sign_with [''sig'']) txs)) (buildVersionTransactions (transactionsData \<lparr>p_connection = \<lparr>getRecentPrioritizationFees = (\<lambda>a. Inr []), getLatestBlockhash = (\<lambda>k. Inr \<lparr>blockhash = ''h'', lastValidBlockHeight = 9\<rparr>), simulateTransaction = (\<lambda>i t. if i = 1 then Inl (Error (Some ''boom'')) else Inr \<lparr>simulation_err = None, unitsConsumed = None\<rparr>)\<rparr>, p_errors = (\<lambda>n. None), transactionsData = [\<lparr>instructions = [\<lparr>keys = [], programId = ''11111111111111111111111111111111'', data = []\<rparr>], feePayer = Some ''A'', signers = None, addressLookupTableAccounts = None\<rparr>, \<lparr>instructions = [\<lparr>keys = [], programId = ''11111111111111111111111111111111'', data = []\<rparr>], feePayer = Some ''B'', signers = None, addressLookupTableAccounts = None\<rparr>], p_signAllTransactions = Some (\<lambda>txs. Inr (map (sign_with [''sig'']) txs))\<rparr>) (blockhash \<lparr>blockhash = ''h'', lastValidBlockHeight = 9\<rparr>))
     = Inr [sign_with [''sig''] \<lparr>message_instructions = [\<lparr>keys = [], programId = ''11111111111111111111111111111111'', data = []\<rparr>], payerKey = Some ''A'', recentBlockhash = ''h'', lookupTables = None, signatures = []\<rparr>, sign_with [''sig''] \<lparr>message_instructions = [\<lparr>keys = [], programId = ''11111111111111111111111111111111'', data = []\<rparr>], payerKey = Some ''B'', recentBlockhash = ''h'', lookupTables = None, signatures = []\<rparr>]"
    by (simp add: buildVersionTransactions_def has_signers_def newVersionedTransaction_def)
  have f: "\<exists>i < length [sign_with [''sig''] \<lparr>message_instructions = [\<lparr>keys = [], programId = ''11111111111111111111111111111111'', data = []\<rparr>], payerKey = Some ''A'', recentBlockhash = ''h'', lookupTables = None, signatures = []\<rparr>, sign_with [''sig''] \<lparr>message_instructions = [\<lparr>keys = [], programId = ''11111111111111111111111111111111'', data = []\<rparr>], payerKey = Some ''B'', recentBlockhash = ''h'', lookupTables = None, signatures = []\<rparr>]. \<exists>e. simulateTransaction (p_connection \<lparr>p_connection = \<lparr>getRecentPrioritizationFees = (\<lambda>a. Inr []), getLatestBlockhash = (\<lambda>k. Inr \<lparr>blockhash = ''h'', lastValidBlockHeight = 9\<rparr>), simulateTransaction = (\<lambda>i t. if i = 1 then Inl (Error (Some ''boom'')) else Inr \<lparr>simulation_err = None, unitsConsumed = None\<rparr>)\<rparr>, p_errors = (\<lambda>n. None), transactionsData = [\<lparr>instructions = [\<lparr>keys = [], programId = ''11111111111111111111111111111111'', data = []\<rparr>], feePayer = Some ''A'', signers = None, addressLookupTableAccounts = None\<rparr>, \<lparr>instructions = [\<lparr>keys = [], programId = ''11111111111111111111111111111111'', data = []\<rparr>], feePayer = Some ''B'', signers = None, addressLookupTableAccounts = None\<rparr>], p_signAllTransactions = Some (\<lambda>txs. Inr (map (sign_with [''sig'']) txs))\<rparr>) i ([sign_with [''sig''] \<lparr>message_instructions = [\<lparr>keys = [], programId = ''11111111111111111111111111111111'', data = []\<rparr>], payerKey = Some ''A'', recentBlockhash = ''h'', lookupTables = None, signatures = []\<rparr>, sign_with [''sig''] \<lparr>message_instructions = [\<lparr>keys = [], programId = ''11111111111111111111111111111111'', data = []\<rparr>], payerKey = Some ''B'', recentBlockhash = ''h'', lookupTables = None, signatures = []\<rparr>] ! i) = Inl e"
    by (intro exI [of _ 1]) simp
  obtain errs where
    r: "returned (execute \<lparr>translateError = (\<lambda>e m. e), JSON_stringify_error = (\<lambda>e. ''error''), JSON_stringify_entries = (\<lambda>es. ''entries'')\<rparr> \<lparr>p_connection = \<lparr>getRecentPrioritizationFees = (\<lambda>a. Inr []), getLatestBlockhash = (\<lambda>k. Inr \<lparr>blockhash = ''h'', lastValidBlockHeight = 9\<rparr>), simulateTransaction = (\<lambda>i t. if i = 1 then Inl (Error (Some ''boom'')) else Inr \<lparr>simulation_err = None, unitsConsumed = None\<rparr>)\<rparr>, p_errors = (\<lambda>n. None), transactionsData = [\<lparr>instructions = [\<lparr>keys = [], programId = ''11111111111111111111111111111111'', data = []\<rparr>], feePayer = Some ''A'', signers = None, addressLookupTableAccounts = None\<rparr>, \<lparr>instructions = [\<lparr>keys = [], programId = ''11111111111111111111111111111111'', data = []\<rparr>], feePayer = Some ''B'', signers = None, addressLookupTableAccounts = None\<rparr>], p_signAllTransactions = Some (\<lambda>txs. Inr (map (sign_with [''sig'']) txs))\<rparr> None (\<lambda>i. 0) (\<lambda>i t sg l. Inr ()))
          = Inl (MultiTransactionSimulationError (simulation_message \<lparr>translateError = (\<lambda>e m. e), JSON_stringify_error = (\<lambda>e. ''error''), JSON_stringify_entries = (\<lambda>es. ''entries'')\<rparr> errs) errs)" and
    s: "set errs = {(j, translateError \<lparr>translateError = (\<lambda>e m. e), JSON_stringify_error = (\<lambda>e. ''error''), JSON_stringify_entries = (\<lambda>es. ''entries'')\<rparr> x (p_errors \<lparr>p_connection = \<lparr>getRecentPrioritizationFees = (\<lambda>a. Inr []), getLatestBlockhash = (\<lambda>k. Inr \<lparr>blockhash = ''h'', lastValidBlockHeight = 9\<rparr>), simulateTransaction = (\<lambda>i t. if i = 1 then Inl (Error (Some ''boom'')) else Inr \<lparr>simulation_err = None, unitsConsumed = None\<rparr>)\<rparr>, p_errors = (\<lambda>n. None), transactionsData = [\<lparr>instructions = [\<lparr>keys = [], programId = ''11111111111111111111111111111111'', data = []\<rparr>], feePayer = Some ''A'', signers = None, addressLookupTableAccounts = None\<rparr>, \<lparr>instructions = [\<lparr>keys = [], programId = ''11111111111111111111111111111111'', data = []\<rparr>], feePayer = Some ''B'', signers = None, addressLookupTableAccounts = None\<rparr>], p_signAllTransactions = Some (\<lambda>txs. Inr (map (sign_with [''sig'']) txs))\<rparr>)) | j x.
             j < length [sign_with [''sig''] \<lparr>message_instructions = [\<lparr>keys = [], programId = ''11111111111111111111111111111111'', data = []\<rparr>], payerKey = Some ''A'', recentBlockhash = ''h'', lookupTables = None, signatures = []\<rparr>, sign_with [''sig''] \<lparr>message_instructions = [\<lparr>keys = [], programId = ''11111111111111111111111111111111'', data = []\<rparr>], payerKey = Some ''B'', recentBlockhash = ''h'', lookupTables = None, signatures = []\<rparr>] \<and>
             simulateTransaction (p_connection \<lparr>p_connection = \<lparr>getRecentPrioritizationFees = (\<lambda>a. Inr []), getLatestBlockhash = (\<lambda>k. Inr \<lparr>blockhash = ''h'', lastValidBlockHeight = 9\<rparr>), simulateTransaction = (\<lambda>i t. if i = 1 then Inl (Error (Some ''boom'')) else Inr \<lparr>simulation_err = None, unitsConsumed = None\<rparr>)\<rparr>, p_errors = (\<lambda>n. None), transactionsData = [\<lparr>instructions = [\<lparr>keys = [], programId = ''11111111111111111111111111111111'', data = []\<rparr>], feePayer = Some ''A'', signers = None, addressLookupTableAccounts = None\<rparr>, \<lparr>instructions = [\<lparr>keys = [], programId = ''11111111111111111111111111111111'', data = []\<rparr>], feePayer = Some ''B'', signers = None, addressLookupTableAccounts = None\<rparr>], p_signAllTransactions = Some (\<lambda>txs. Inr (map (sign_with [''sig'']) txs))\<rparr>) j ([sign_with [''sig''] \<lparr>message_instructions = [\<lparr>keys = [], programId = ''11111111111111111111111111111111'', data = []\<rparr>], payerKey = Some ''A'', recentBlockhash = ''h'', lookupTables = None, signatures = []\<rparr>, sign_with [''sig''] \<lparr>message_instructions = [\<lparr>keys = [], programId = ''11111111111111111111111111111111'', data = []\<rparr>], payerKey = Some ''B'', recentBlockhash = ''h'', lookupTables = None, signatures = []\<rparr>] ! j) = Inl x}" and
    d: "distinct (map fst errs)" and
    b: "broadcast (execute \<lparr>translateError = (\<lambda>e m. e), JSON_stringify_error = (\<lambda>e. ''error''), JSON_stringify_entries = (\<lambda>es. ''entries'')\<rparr> \<lparr>p_connection = \<lparr>getRecentPrioritizationFees = (\<lambda>a. Inr []), getLatestBlockhash = (\<lambda>k. Inr \<lparr>blockhash = ''h'', lastValidBlockHeight = 9\<rparr>), simulateTransaction = (\<lambda>i t. if i = 1 then Inl (Error (Some ''boom'')) else Inr \<lparr>simulation_err = None, unitsConsumed = None\<rparr>)\<rparr>, p_errors = (\<lambda>n. None), transactionsData = [\<lparr>instructions = [\<lparr>keys = [], programId = ''11111111111111111111111111111111'', data = []\<rparr>], feePayer = Some ''A'', signers = None, addressLookupTableAccounts = None\<rparr>, \<lparr>instructions = [\<lparr>keys = [], programId = ''11111111111111111111111111111111'', data = []\<rparr>], feePayer = Some ''B'', signers = None, addressLookupTableAccounts = None\<rparr>], p_signAllTransactions = Some (\<lambda>txs. Inr (map (sign_with [''sig'']) txs))\<rparr> None (\<lambda>i. 0) (\<lambda>i t sg l. Inr ())) = []"
    using C2_thrown_simulation_aborts_batch [OF sg en gl sa] f by blast
  have o: "set errs = {(1, Error (Some ''boom''))}"
    unfolding s by (auto simp: less_Suc_eq split: if_splits)
  moreover have "distinct errs" using d by (simp add: distinct_map)
  ultimately have "length errs = 1" using distinct_card [of errs] by simp
  then obtain x where "errs = [x]" by (cases errs) auto
  then have "errs = [(1, Error (Some ''boom''))]"
    using o by simp
  then show ?thesis using r b by simp
qed


lemma bn_div_finite: "y \<noteq> 0 \<Longrightarrow> bn_div (Fin x) (Fin y) = Fin (round_half_up_20 (x / y))"
  by (simp add: bn_div_def is_inf_def)

text \<open>
  Without samples and without options the estimate is zero, whatever the compute units
  are: the default cap is not negative.
\<close>

lemma estimate_without_samples_any:
  assumes "getRecentPrioritizationFees conn = (\<lambda>accounts. Inr [])" and "0 < cu"
  shows "calculatePriorityFee conn ixs cu None = Inr 0"
proof -
  define q where "q = round_half_up_20 (round_half_up_20 (995000 / of_nat cu) / (1 / 1000000))"
  have "0 \<le> round_half_up_20 (995000 / of_nat cu)"
    by (rule round_half_up_20_nonneg) simp
  then have "0 \<le> round_half_up_20 (995000 / of_nat cu) / (1 / 1000000)" by simp
  then have q: "0 \<le> q" unfolding q_def by (rule round_half_up_20_nonneg)
  have n: "bn_minus (bn_times (Fin DEFAULT_MAX_PRIORITY_FEE) (Fin LAMPORTS_PER_SOL))
             (Fin BASE_FEE_LAMPORTS) = Fin 995000"
    by (simp add: bn_minus_def bn_times_def DEFAULT_MAX_PRIORITY_FEE_def LAMPORTS_PER_SOL_def
        BASE_FEE_LAMPORTS_def)
  have "bn_div (Fin 995000) (Fin (of_nat cu)) = Fin (round_half_up_20 (995000 / of_nat cu))"
    using assms(2) by (intro bn_div_finite) simp
  then have cap: "bn_div (bn_div (Fin 995000) (Fin (of_nat cu))) (Fin LAMPORTS_PER_MICRO_LAMPORT) = Fin q"
    by (simp add: bn_div_finite LAMPORTS_PER_MICRO_LAMPORT_def q_def)
  have m: "calculatedFee (medianFee (replaceNonZeroAndSortPrioritizationFeesAsc [])) Medium = Fin 0"
    by (simp add: replaceNonZeroAndSortPrioritizationFeesAsc_def array_sort_def medianFee_def
        calculatedFee_def bn_times_def)
  have "getRecentPriorityFee conn ixs Medium (Fin q) = Fin 0"
    using assms(1) m q by (simp add: getRecentPriorityFee_def bn_min_def)
  then show ?thesis
    by (simp add: calculatePriorityFee_def n cap)
qed

lemma other_program_is_no_budget_instruction:
  "programId ix \<noteq> ComputeBudgetProgram_programId \<Longrightarrow> is_budget_instruction t ix = Inr False"
  by (simp add: is_budget_instruction_def)

text \<open>
  The claim C2 as stated fails when a simulation fails without throwing. In this batch of
  two requests the simulation of the second returns a response that reports an execution
  error; the response is taken for its consumed units only, no aggregate error is raised,
  both transactions are handed to the send stage, and the execution returns one outcome
  for each.
\<close>

theorem C2_reported_failure_counterexample:
  "simulateTransaction (p_connection \<lparr>p_connection = \<lparr>getRecentPrioritizationFees = (\<lambda>a. Inr []), getLatestBlockhash = (\<lambda>k. Inr \<lparr>blockhash = ''h'', lastValidBlockHeight = 9\<rparr>), simulateTransaction = (\<lambda>i t. if 0 < i then Inr \<lparr>simulation_err = Some ''InstructionError'', unitsConsumed = Some 150\<rparr> else Inr \<lparr>simulation_err = None, unitsConsumed = Some 150\<rparr>)\<rparr>, p_errors = (\<lambda>n. None), transactionsData = [\<lparr>instructions = [\<lparr>keys = [], programId = ''11111111111111111111111111111111'', data = []\<rparr>], feePayer = Some ''A'', signers = None, addressLookupTableAccounts = None\<rparr>, \<lparr>instructions = [\<lparr>keys = [], programId = ''11111111111111111111111111111111'', data = []\<rparr>], feePayer = Some ''B'', signers = None, addressLookupTableAccounts = None\<rparr>], p_signAllTransactions = Some (\<lambda>txs. Inr (map (sign_with [''sig'']) txs))\<rparr>) 1 \<lparr>message_instructions = [\<lparr>keys = [], programId = ''11111111111111111111111111111111'', data = []\<rparr>], payerKey = Some ''B'', recentBlockhash = ''h'', lookupTables = None, signatures = [''sig'']\<rparr>
   = Inr \<lparr>simulation_err = Some ''InstructionError'', unitsConsumed = Some 150\<rparr> \<and>
   returned (execute \<lparr>translateError = (\<lambda>e m. e), JSON_stringify_error = (\<lambda>e. ''error''), JSON_stringify_entries = (\<lambda>es. ''entries'')\<rparr> \<lparr>p_connection = \<lparr>getRecentPrioritizationFees = (\<lambda>a. Inr []), getLatestBlockhash = (\<lambda>k. Inr \<lparr>blockhash = ''h'', lastValidBlockHeight = 9\<rparr>), simulateTransaction = (\<lambda>i t. if 0 < i then Inr \<lparr>simulation_err = Some ''InstructionError'', unitsConsumed = Some 150\<rparr> else Inr \<lparr>simulation_err = None, unitsConsumed = Some 150\<rparr>)\<rparr>, p_errors = (\<lambda>n. None), transactionsData = [\<lparr>instructions = [\<lparr>keys = [], programId = ''11111111111111111111111111111111'', data = []\<rparr>], feePayer = Some ''A'', signers = None, addressLookupTableAccounts = None\<rparr>, \<lparr>instructions = [\<lparr>keys = [], programId = ''11111111111111111111111111111111'', data = []\<rparr>], feePayer = Some ''B'', signers = None, addressLookupTableAccounts = None\<rparr>], p_signAllTransactions = Some (\<lambda>txs. Inr (map (sign_with [''sig'']) txs))\<rparr> None (\<lambda>i. 0) (\<lambda>i t sg l. if 0 < i then Inl (Error (Some ''Transaction simulation failed'')) else Inr ()))
   = Inr [\<lparr>settled = Fulfilled ''sig'', item_transactionData = \<lparr>instructions = [setComputeUnitPrice 0, setComputeUnitLimit 605, \<lparr>keys = [], programId = ''11111111111111111111111111111111'', data = []\<rparr>], feePayer = Some ''A'', signers = None, addressLookupTableAccounts = None\<rparr>, item_transaction = \<lparr>message_instructions = [setComputeUnitPrice 0, setComputeUnitLimit 605, \<lparr>keys = [], programId = ''11111111111111111111111111111111'', data = []\<rparr>], payerKey = Some ''A'', recentBlockhash = ''h'', lookupTables = None, signatures = []\<rparr>\<rparr>, \<lparr>settled = Rejected (Error (Some ''Transaction simulation failed'')), item_transactionData = \<lparr>instructions = [setComputeUnitPrice 0, setComputeUnitLimit 605, \<lparr>keys = [], programId = ''11111111111111111111111111111111'', data = []\<rparr>], feePayer = Some ''B'', signers = None, addressLookupTableAccounts = None\<rparr>, item_transaction = \<lparr>message_instructions = [setComputeUnitPrice 0, setComputeUnitLimit 605, \<lparr>keys = [], programId = ''11111111111111111111111111111111'', data = []\<rparr>], payerKey = Some ''B'', recentBlockhash = ''h'', lookupTables = None, signatures = []\<rparr>\<rparr>] \<and>
   broadcast (execute \<lparr>translateError = (\<lambda>e m. e), JSON_stringify_error = (\<lambda>e. ''error''), JSON_stringify_entries = (\<lambda>es. ''entries'')\<rparr> \<lparr>p_connection = \<lparr>getRecentPrioritizationFees = (\<lambda>a. Inr []), getLatestBlockhash = (\<lambda>k. Inr \<lparr>blockhash = ''h'', lastValidBlockHeight = 9\<rparr>), simulateTransaction = (\<lambda>i t. if 0 < i then Inr \<lparr>simulation_err = Some ''InstructionError'', unitsConsumed = Some 150\<rparr> else Inr \<lparr>simulation_err = None, unitsConsumed = Some 150\<rparr>)\<rparr>, p_errors = (\<lambda>n. None), transactionsData = [\<lparr>instructions = [\<lparr>keys = [], programId = ''11111111111111111111111111111111'', data = []\<rparr>], feePayer = Some ''A'', signers = None, addressLookupTableAccounts = None\<rparr>, \<lparr>instructions = [\<lparr>keys = [], programId = ''11111111111111111111111111111111'', data = []\<rparr>], feePayer = Some ''B'', signers = None, addressLookupTableAccounts = None\<rparr>], p_signAllTransactions = Some (\<lambda>txs. Inr (map (sign_with [''sig'']) txs))\<rparr> None (\<lambda>i. 0) (\<lambda>i t sg l. if 0 < i then Inl (Error (Some ''Transaction simulation failed'')) else Inr ()))
   = [\<lparr>message_instructions = [setComputeUnitPrice 0, setComputeUnitLimit 605, \<lparr>keys = [], programId = ''11111111111111111111111111111111'', data = []\<rparr>], payerKey = Some ''A'', recentBlockhash = ''h'', lookupTables = None, signatures = [''sig'']\<rparr>, \<lparr>message_instructions = [setComputeUnitPrice 0, setComputeUnitLimit 605, \<lparr>keys = [], programId = ''11111111111111111111111111111111'', data = []\<rparr>], payerKey = Some ''B'', recentBlockhash = ''h'', lookupTables = None, signatures = [''sig'']\<rparr>]"
proof -
  define sims :: "(nat \<times> SimulatedTransactionResponse) list" where "sims = [(0, \<lparr>simulation_err = None, unitsConsumed = Some 150\<rparr>), (1, \<lparr>simulation_err = Some ''InstructionError'', unitsConsumed = Some 150\<rparr>)]"
  have sim: "simulate \<lparr>translateError = (\<lambda>e m. e), JSON_stringify_error = (\<lambda>e. ''error''), JSON_stringify_entries = (\<lambda>es. ''entries'')\<rparr> \<lparr>p_connection = \<lparr>getRecentPrioritizationFees = (\<lambda>a. Inr []), getLatestBlockhash = (\<lambda>k. Inr \<lparr>blockhash = ''h'', lastValidBlockHeight = 9\<rparr>), simulateTransaction = (\<lambda>i t. if 0 < i then Inr \<lparr>simulation_err = Some ''InstructionError'', unitsConsumed = Some 150\<rparr> else Inr \<lparr>simulation_err = None, unitsConsumed = Some 150\<rparr>)\<rparr>, p_errors = (\<lambda>n. None), transactionsData = [\<lparr>instructions = [\<lparr>keys = [], programId = ''11111111111111111111111111111111'', data = []\<rparr>], feePayer = Some ''A'', signers = None, addressLookupTableAccounts = None\<rparr>, \<lparr>instructions = [\<lparr>keys = [], programId = ''11111111111111111111111111111111'', data = []\<rparr>], feePayer = Some ''B'', signers = None, addressLookupTableAccounts = None\<rparr>], p_signAllTransactions = Some (\<lambda>txs. Inr (map (sign_with [''sig'']) txs))\<rparr> 0 True (\<lambda>i. 0)
     = Inr sims"
    unfolding sims_def by code_simp
  have cu: "computeUnit_of sims 0 = 605" "computeUnit_of sims (Suc 0) = 605"
    by (simp_all add: sims_def computeUnit_of_def COMPUTE_BUDGET_PROGRAM_COMPUTE_UNIT_def)
  have fee: "calculatePriorityFee \<lparr>getRecentPrioritizationFees = (\<lambda>a. Inr []), getLatestBlockhash = (\<lambda>k. Inr \<lparr>blockhash = ''h'', lastValidBlockHeight = 9\<rparr>), simulateTransaction = (\<lambda>i t. if 0 < i then Inr \<lparr>simulation_err = Some ''InstructionError'', unitsConsumed = Some 150\<rparr> else Inr \<lparr>simulation_err = None, unitsConsumed = Some 150\<rparr>)\<rparr> ixs 605 None = Inr 0" for ixs
    by (rule estimate_without_samples_any) simp_all
  have nb: "is_budget_instruction t \<lparr>keys = [], programId = ''11111111111111111111111111111111'', data = []\<rparr> = Inr False" for t
    by (rule other_program_is_no_budget_instruction)
       (simp add: ComputeBudgetProgram_programId_def)
  have inj: "addPriorityFeeInstructions \<lparr>getRecentPrioritizationFees = (\<lambda>a. Inr []), getLatestBlockhash = (\<lambda>k. Inr \<lparr>blockhash = ''h'', lastValidBlockHeight = 9\<rparr>), simulateTransaction = (\<lambda>i t. if 0 < i then Inr \<lparr>simulation_err = Some ''InstructionError'', unitsConsumed = Some 150\<rparr> else Inr \<lparr>simulation_err = None, unitsConsumed = Some 150\<rparr>)\<rparr> [\<lparr>keys = [], programId = ''11111111111111111111111111111111'', data = []\<rparr>] 605 None
     = (None, [setComputeUnitPrice 0, setComputeUnitLimit 605, \<lparr>keys = [], programId = ''11111111111111111111111111111111'', data = []\<rparr>])"
    by (simp add: addPriorityFeeInstructions_def nb fee Let_def)
  have ps: "parseSolanaSendTransactionError \<lparr>translateError = (\<lambda>e m. e), JSON_stringify_error = (\<lambda>e. ''error''), JSON_stringify_entries = (\<lambda>es. ''entries'')\<rparr> (Error (Some ''Transaction simulation failed'')) (\<lambda>n. None)
     = Inr (Error (Some ''Transaction simulation failed''))"
    by code_simp
  have ex: "execute \<lparr>translateError = (\<lambda>e m. e), JSON_stringify_error = (\<lambda>e. ''error''), JSON_stringify_entries = (\<lambda>es. ''entries'')\<rparr> \<lparr>p_connection = \<lparr>getRecentPrioritizationFees = (\<lambda>a. Inr []), getLatestBlockhash = (\<lambda>k. Inr \<lparr>blockhash = ''h'', lastValidBlockHeight = 9\<rparr>), simulateTransaction = (\<lambda>i t. if 0 < i then Inr \<lparr>simulation_err = Some ''InstructionError'', unitsConsumed = Some 150\<rparr> else Inr \<lparr>simulation_err = None, unitsConsumed = Some 150\<rparr>)\<rparr>, p_errors = (\<lambda>n. None), transactionsData = [\<lparr>instructions = [\<lparr>keys = [], programId = ''11111111111111111111111111111111'', data = []\<rparr>], feePayer = Some ''A'', signers = None, addressLookupTableAccounts = None\<rparr>, \<lparr>instructions = [\<lparr>keys = [], programId = ''11111111111111111111111111111111'', data = []\<rparr>], feePayer = Some ''B'', signers = None, addressLookupTableAccounts = None\<rparr>], p_signAllTransactions = Some (\<lambda>txs. Inr (map (sign_with [''sig'']) txs))\<rparr> None (\<lambda>i. 0) (\<lambda>i t sg l. if 0 < i then Inl (Error (Some ''Transaction simulation failed'')) else Inr ())
     = \<lparr>returned = Inr [\<lparr>settled = Fulfilled ''sig'', item_transactionData = \<lparr>instructions = [setComputeUnitPrice 0, setComputeUnitLimit 605, \<lparr>keys = [], programId = ''11111111111111111111111111111111'', data = []\<rparr>], feePayer = Some ''A'', signers = None, addressLookupTableAccounts = None\<rparr>, item_transaction = \<lparr>message_instructions = [setComputeUnitPrice 0, setComputeUnitLimit 605, \<lparr>keys = [], programId = ''11111111111111111111111111111111'', data = []\<rparr>], payerKey = Some ''A'', recentBlockhash = ''h'', lookupTables = None, signatures = []\<rparr>\<rparr>, \<lparr>settled = Rejected (Error (Some ''Transaction simulation failed'')), item_transactionData = \<lparr>instructions = [setComputeUnitPrice 0, setComputeUnitLimit 605, \<lparr>keys = [], programId = ''11111111111111111111111111111111'', data = []\<rparr>], feePayer = Some ''B'', signers = None, addressLookupTableAccounts = None\<rparr>, item_transaction = \<lparr>message_instructions = [setComputeUnitPrice 0, setComputeUnitLimit 605, \<lparr>keys = [], programId = ''11111111111111111111111111111111'', data = []\<rparr>], payerKey = Some ''B'', recentBlockhash = ''h'', lookupTables = None, signatures = []\<rparr>\<rparr>],
        requests_after = [\<lparr>instructions = [setComputeUnitPrice 0, setComputeUnitLimit 605, \<lparr>keys = [], programId = ''11111111111111111111111111111111'', data = []\<rparr>], feePayer = Some ''A'', signers = None, addressLookupTableAccounts = None\<rparr>, \<lparr>instructions = [setComputeUnitPrice 0, setComputeUnitLimit 605, \<lparr>keys = [], programId = ''11111111111111111111111111111111'', data = []\<rparr>], feePayer = Some ''B'', signers = None, addressLookupTableAccounts = None\<rparr>],
        broadcast = [\<lparr>message_instructions = [setComputeUnitPrice 0, setComputeUnitLimit 605, \<lparr>keys = [], programId = ''11111111111111111111111111111111'', data = []\<rparr>], payerKey = Some ''A'', recentBlockhash = ''h'', lookupTables = None, signatures = [''sig'']\<rparr>, \<lparr>message_instructions = [setComputeUnitPrice 0, setComputeUnitLimit 605, \<lparr>keys = [], programId = ''11111111111111111111111111111111'', data = []\<rparr>], payerKey = Some ''B'', recentBlockhash = ''h'', lookupTables = None, signatures = [''sig'']\<rparr>]\<rparr>"
    by (simp add: execute_def sim cu inj Let_def buildVersionTransactions_def has_signers_def
        newVersionedTransaction_def sign_with_def settle_def ps upt_rec)
  show ?thesis unfolding ex by simp
qed

end
